theory Spec2Isabelle
  imports Complex_Main
begin

section \<open>The wiring of wpull's application builder (wpull/app.py)\<close>

text \<open>
  \<^verbatim>\<open>app.py\<close> holds one class, \<^verbatim>\<open>Builder\<close>, which turns the parsed command line
  (\<^verbatim>\<open>args\<close>) into an \<^verbatim>\<open>Engine\<close> with its URL table, processor and HTTP client.
  The collaborating classes (\<^verbatim>\<open>URLInfo\<close>, \<^verbatim>\<open>URLTable\<close>, \<^verbatim>\<open>Request\<close>, the recorders,
  filters and writers) live in other modules. An object of such a class is modelled
  by the constructor call that made it: the class that was called and the arguments it
  was given, followed, for the objects the builder goes on to use, by the method calls
  the builder performs on them. Calls into those modules are taken to return, except
  where the builder's own course depends on an exception: parsing a seed URL, opening
  a log file or a script file, and running the script.
\<close>

subsection \<open>Values and errors\<close>

text \<open>Values that the builder only hands on, without looking at them.\<close>

datatype pyval = PyNone | PyBool bool | PyInt int | PyNum rat | PyStr string
  | PyList "pyval list"

text \<open>The exceptions that can leave the builder.\<close>

datatype error =
    KeyError string        \<comment> \<open>a name missing from the class registry\<close>
  | ValueError             \<comment> \<open>unpacking \<^verbatim>\<open>split(':', 1)\<close> of a string without a colon\<close>
  | TypeError string       \<comment> \<open>a keyword argument given twice\<close>
  | IOError string         \<comment> \<open>a file that cannot be opened\<close>
  | ParseError string      \<comment> \<open>raised by \<^verbatim>\<open>URLInfo.parse\<close>\<close>
  | ScriptError            \<comment> \<open>raised while compiling or running the hook script\<close>
  | EngineError            \<comment> \<open>raised by the running engine\<close>

definition and_then :: "error + 'a \<Rightarrow> ('a \<Rightarrow> error + 'b) \<Rightarrow> error + 'b" where
  "and_then m f = (case m of Inl e \<Rightarrow> Inl e | Inr x \<Rightarrow> f x)"

text \<open>Python truthiness of an optional string and of an optional number.\<close>

definition truthy_str :: "string option \<Rightarrow> bool" where
  "truthy_str s = (case s of None \<Rightarrow> False | Some t \<Rightarrow> t \<noteq> [])"

definition truthy_num :: "rat option \<Rightarrow> bool" where
  "truthy_num n = (case n of None \<Rightarrow> False | Some x \<Rightarrow> x \<noteq> 0)"

subsection \<open>The command-line namespace\<close>

text \<open>
  The attributes of \<^verbatim>\<open>args\<close> that \<^verbatim>\<open>app.py\<close> reads. Flags are booleans, optional
  strings and numbers are \<open>None\<close> when the option is not given, \<^verbatim>\<open>input_file\<close> is the
  open file as the list of its lines, and attributes that are only passed on to a
  constructor are \<^typ>\<open>pyval\<close>.
\<close>

record args =
  concurrent :: pyval
  verbosity :: "int option"
  output_file :: "string option"
  append_output :: "string option"
  python_script :: "string option"
  urls :: "string list"
  input_file :: "string list option"
  domains :: pyval
  exclude_domains :: pyval
  hostnames :: pyval
  exclude_hostnames :: pyval
  tries :: pyval
  recursive :: bool
  page_requisites :: bool
  level :: pyval
  span_hosts :: pyval
  accept_regex :: pyval
  reject_regex :: pyval
  include_directories :: pyval
  exclude_directories :: pyval
  no_parent :: bool
  follow_tags :: pyval
  ignore_tags :: pyval
  relative :: pyval
  robots :: bool
  database :: pyval
  warc_file :: "string option"
  no_warc_compression :: bool
  warc_header :: "string list"
  warc_tempdir :: pyval
  warc_log :: pyval
  warc_append :: pyval
  server_response :: bool
  wait :: pyval
  random_wait :: pyval
  waitretry :: pyval
  retry_connrefused :: pyval
  retry_dns_error :: pyval
  max_redirect :: pyval
  delete_after :: bool
  use_directories :: "string option"
  directory_prefix :: pyval
  default_page :: pyval
  cut_dirs :: pyval
  protocol_directories :: pyval
  host_directories :: pyval
  continue_download :: bool
  clobber_method :: "string option"
  timestamping :: bool
  save_headers :: pyval
  use_server_timestamps :: pyval
  user_agent :: "string option"
  referer :: "string option"
  header :: "string list"
  dns_timeout :: "rat option"
  connect_timeout :: "rat option"
  read_timeout :: "rat option"
  timeout :: "rat option"
  inet_family :: "string option"
  prefer_family :: "string option"
  rotate_dns :: pyval
  http_keep_alive :: pyval


subsection \<open>Classes and the class registry\<close>

text \<open>
  The classes \<^verbatim>\<open>app.py\<close> imports, and the three factory methods of a
  \<^verbatim>\<open>HookEnvironment\<close> instance, which stand in for classes once a hook script is
  installed.
\<close>

datatype cls =
    URLInfo_cls | URLTable_cls | HTMLScraper_cls | CSSScraper_cls | Client_cls
  | Connection_cls | HostConnectionPool_cls | ConnectionPool_cls | Request_cls
  | Resolver_cls | WebProcessor_cls | WARCRecorder_cls | DemuxRecorder_cls
  | PrintServerResponseRecorder_cls | ProgressRecorder_cls | LinearWaiter_cls
  | PathNamer_cls | Engine_cls
  | engine_factory | web_processor_factory | resolver_factory

type_synonym registry = "string \<rightharpoonup> cls"

text \<open>The dictionary literal of \<^verbatim>\<open>Builder.__init__\<close>, entry by entry.\<close>

definition initial_classes :: registry where
  "initial_classes = map_of [
     (''URLInfo'', URLInfo_cls),
     (''URLTable'', URLTable_cls),
     (''HTMLScraper'', HTMLScraper_cls),
     (''CSSScraper'', Engine_cls),
     (''Client'', Client_cls),
     (''Connection'', Connection_cls),
     (''HostConnectionPool'', HostConnectionPool_cls),
     (''ConnectionPool'', ConnectionPool_cls),
     (''Request'', Request_cls),
     (''Resolver'', Resolver_cls),
     (''WebProcessor'', WebProcessor_cls),
     (''WARCRecorder'', WARCRecorder_cls),
     (''DemuxRecorder'', DemuxRecorder_cls),
     (''PrintServerResponseRecorder'', PrintServerResponseRecorder_cls),
     (''ProgressRecorder'', ProgressRecorder_cls),
     (''Waiter'', LinearWaiter_cls),
     (''PathNamer'', PathNamer_cls),
     (''Engine'', Engine_cls)]"

text \<open>\<^verbatim>\<open>self._classes[name]\<close>: a missing key raises.\<close>

definition lookup :: "registry \<Rightarrow> string \<Rightarrow> error + cls" where
  "lookup classes name =
     (case classes name of None \<Rightarrow> Inl (KeyError name) | Some c \<Rightarrow> Inr c)"

subsection \<open>What the builder takes from outside \<^verbatim>\<open>app.py\<close>\<close>

text \<open>A parsed URL; the builder reads its \<^verbatim>\<open>url\<close> attribute only.\<close>

record url_info =
  url :: string

text \<open>
  Code and constants of other modules and of the Python runtime, taken as parameters:
  the \<^verbatim>\<open>parse\<close> class method of the class registered as \<^verbatim>\<open>URLInfo\<close> (url string and
  default scheme), \<^verbatim>\<open>wpull.version.__version__\<close>, \<^verbatim>\<open>str(args)\<close>, the characters
  \<^verbatim>\<open>str.strip()\<close> removes, whether a log file or a script file opens, the absolute
  path under which \<^verbatim>\<open>logging.FileHandler\<close> reports a file it cannot open, and whether
  reading, compiling and running the script completes.
\<close>

record env =
  URLInfo_parse :: "cls \<Rightarrow> string \<Rightarrow> string \<Rightarrow> error + url_info"
  wpull_version :: string
  str_of_args :: "args \<Rightarrow> string"
  isspace :: "char \<Rightarrow> bool"
  FileHandler_opens :: "string \<Rightarrow> string \<Rightarrow> bool"
  abspath :: "string \<Rightarrow> string"
  open_succeeds :: "string \<Rightarrow> bool"
  compile_exec_succeeds :: "string \<Rightarrow> bool"

text \<open>The constants of the \<^verbatim>\<open>logging\<close> module.\<close>

definition logging_DEBUG :: int where "logging_DEBUG = 10"
definition logging_INFO :: int where "logging_INFO = 20"
definition logging_WARN :: int where "logging_WARN = 30"

text \<open>The string held by an option that was found truthy.\<close>

definition the_str :: "string option \<Rightarrow> string" where
  "the_str s = (case s of None \<Rightarrow> [] | Some t \<Rightarrow> t)"

subsection \<open>The builder and its constructor\<close>

record builder =
  self_args :: args
  self_classes :: registry
  self_url_infos :: "url_info list"

text \<open>
  The loop of the generator \<^verbatim>\<open>_build_input_urls\<close>: each string is parsed by the class
  registered as \<^verbatim>\<open>URLInfo\<close>; the first exception ends the iteration. An open input
  file is truthy whatever it holds, so its lines are chained whenever there is one.
\<close>

fun parse_each :: "env \<Rightarrow> registry \<Rightarrow> string \<Rightarrow> string list \<Rightarrow> error + url_info list" where
  "parse_each env classes default_scheme [] = Inr []"
| "parse_each env classes default_scheme (url_string # rest) =
     and_then (lookup classes ''URLInfo'') (\<lambda>c.
     and_then (URLInfo_parse env c url_string default_scheme) (\<lambda>url_info.
     and_then (parse_each env classes default_scheme rest) (\<lambda>infos.
       Inr (url_info # infos))))"

definition build_input_urls :: "env \<Rightarrow> args \<Rightarrow> registry \<Rightarrow> string \<Rightarrow> error + url_info list" where
  "build_input_urls env a classes default_scheme =
     (let url_string_iter =
            (case input_file a of
               Some lines \<Rightarrow> urls a @ lines
             | None \<Rightarrow> urls a)
      in parse_each env classes default_scheme url_string_iter)"

text \<open>\<^verbatim>\<open>Builder.__init__\<close>; the default scheme of \<^verbatim>\<open>_build_input_urls\<close> is \<^verbatim>\<open>'http'\<close>.\<close>

definition Builder_init :: "env \<Rightarrow> args \<Rightarrow> error + builder" where
  "Builder_init env a =
     and_then (build_input_urls env a initial_classes ''http'') (\<lambda>infos.
       Inr \<lparr>self_args = a, self_classes = initial_classes, self_url_infos = infos\<rparr>)"

subsection \<open>Logging and script hooks\<close>

text \<open>
  Calls that act on the process rather than on the builder. Log messages
  (\<^verbatim>\<open>_logger.info\<close>, \<^verbatim>\<open>_logger.debug\<close>) are left out.
\<close>

datatype effect =
    basicConfig int                   \<comment> \<open>level\<close>
  | set_blocking_log_threshold int
  | addHandler string string int      \<comment> \<open>file name, mode, level\<close>
  | exec_script string                \<comment> \<open>file name\<close>

definition setup_logging :: "builder \<Rightarrow> effect list" where
  "setup_logging b =
     (let a = self_args b in
      [basicConfig (case verbosity a of
                      None \<Rightarrow> logging_INFO
                    | Some v \<Rightarrow> if v = 0 then logging_INFO else v)]
      @ (if verbosity a = Some logging_DEBUG then [set_blocking_log_threshold 5] else []))"


definition setup_file_logger :: "env \<Rightarrow> builder \<Rightarrow> error + effect list" where
  "setup_file_logger env b =
     (let a = self_args b in
      if \<not> (truthy_str (output_file a) \<or> truthy_str (append_output a)) then Inr []
      else
        let (filename, mode) =
              (if truthy_str (output_file a) then (the_str (output_file a), ''w'')
               else (the_str (append_output a), ''a''))
        in if FileHandler_opens env filename mode
           then Inr [addHandler filename mode
                       (if verbosity a = Some logging_DEBUG then logging_DEBUG
                        else logging_INFO)]
           else Inl (IOError (abspath env filename)))"

text \<open>
  \<^verbatim>\<open>_install_python_script\<close> changes \<^verbatim>\<open>self._classes\<close> in place, so the builder is
  returned beside the outcome: an exception after the three assignments leaves them
  done.
\<close>

definition install_python_script ::
    "env \<Rightarrow> builder \<Rightarrow> string \<Rightarrow> (error + effect list) \<times> builder" where
  "install_python_script env b filename =
     (if \<not> open_succeeds env filename then (Inl (IOError filename), b)
      else
        let b1 = b\<lparr>self_classes := (self_classes b)(''Engine'' \<mapsto> engine_factory)\<rparr>;
            b2 = b1\<lparr>self_classes :=
                      (self_classes b1)(''WebProcessor'' \<mapsto> web_processor_factory)\<rparr>;
            b3 = b2\<lparr>self_classes := (self_classes b2)(''Resolver'' \<mapsto> resolver_factory)\<rparr>
        in if compile_exec_succeeds env filename
           then (Inr [exec_script filename], b3)
           else (Inl ScriptError, b3))"

definition install_script_hooks :: "env \<Rightarrow> builder \<Rightarrow> (error + effect list) \<times> builder" where
  "install_script_hooks env b =
     (if truthy_str (python_script (self_args b))
      then install_python_script env b (the_str (python_script (self_args b)))
      else (Inr [], b))"

subsection \<open>URL filters and document scrapers\<close>

datatype url_filter =
    is_HTTPFilter: HTTPFilter
  | is_BackwardDomainFilter: BackwardDomainFilter pyval pyval
  | is_HostnameFilter: HostnameFilter pyval pyval
  | is_TriesFilter: TriesFilter pyval
  | is_RecursiveFilter: RecursiveFilter bool bool
  | is_LevelFilter: LevelFilter pyval
  | is_SpanHostsFilter: SpanHostsFilter "url_info list" pyval
  | is_RegexFilter: RegexFilter pyval pyval
  | is_DirectoryFilter: DirectoryFilter pyval pyval
  | is_ParentFilter: ParentFilter

definition build_url_filters :: "builder \<Rightarrow> url_filter list" where
  "build_url_filters b =
     (let a = self_args b;
          filters = [
            HTTPFilter,
            BackwardDomainFilter (domains a) (exclude_domains a),
            HostnameFilter (hostnames a) (exclude_hostnames a),
            TriesFilter (tries a),
            RecursiveFilter (recursive a) (page_requisites a),
            LevelFilter (level a),
            SpanHostsFilter (self_url_infos b) (span_hosts a),
            RegexFilter (accept_regex a) (reject_regex a),
            DirectoryFilter (include_directories a) (exclude_directories a)]
      in if no_parent a then filters @ [ParentFilter] else filters)"

text \<open>
  The scrapers are made by calling the imported classes themselves; the arguments of
  \<^verbatim>\<open>HTMLScraper\<close> are \<^verbatim>\<open>followed_tags\<close>, \<^verbatim>\<open>ignored_tags\<close>, \<^verbatim>\<open>only_relative\<close> and
  \<^verbatim>\<open>robots\<close>.
\<close>

datatype scraper =
    is_HTMLScraper: HTMLScraper pyval pyval pyval bool
  | is_CSSScraper: CSSScraper

definition build_document_scrapers :: "builder \<Rightarrow> scraper list" where
  "build_document_scrapers b =
     (let a = self_args b in
      [HTMLScraper (follow_tags a) (ignore_tags a) (relative a) (robots a), CSSScraper])"

subsection \<open>The URL table\<close>

datatype table_call = add "string list"

record url_table =
  table_cls :: cls
  table_path :: pyval
  table_calls :: "table_call list"

definition build_url_table :: "builder \<Rightarrow> error + url_table" where
  "build_url_table b =
     and_then (lookup (self_classes b) ''URLTable'') (\<lambda>c.
       let url_table = \<lparr>table_cls = c, table_path = database (self_args b),
                         table_calls = []\<rparr>
       in Inr (url_table\<lparr>table_calls :=
                 table_calls url_table @ [add (map url (self_url_infos b))]\<rparr>))"

subsection \<open>Recorders\<close>

text \<open>\<^verbatim>\<open>s.split(':', 1)\<close>: one piece without a colon, else the two sides of the first.\<close>

fun split_at_first :: "char \<Rightarrow> string \<Rightarrow> (string \<times> string) option" where
  "split_at_first sep [] = None"
| "split_at_first sep (c # cs) =
     (if c = sep then Some ([], cs)
      else (case split_at_first sep cs of
              None \<Rightarrow> None
            | Some (before, after) \<Rightarrow> Some (c # before, after)))"

definition split1 :: "char \<Rightarrow> string \<Rightarrow> string list" where
  "split1 sep s =
     (case split_at_first sep s of None \<Rightarrow> [s] | Some (before, after) \<Rightarrow> [before, after])"

text \<open>\<^verbatim>\<open>s.strip()\<close>, for the whitespace characters \<open>ws\<close>.\<close>

definition lstrip :: "(char \<Rightarrow> bool) \<Rightarrow> string \<Rightarrow> string" where
  "lstrip ws s = dropWhile ws s"

definition rstrip :: "(char \<Rightarrow> bool) \<Rightarrow> string \<Rightarrow> string" where
  "rstrip ws s = rev (dropWhile ws (rev s))"

definition strip :: "(char \<Rightarrow> bool) \<Rightarrow> string \<Rightarrow> string" where
  "strip ws s = rstrip ws (lstrip ws s)"

text \<open>
  The loop over \<^verbatim>\<open>args.warc_header\<close>: unpacking into \<^verbatim>\<open>name, value\<close> raises
  \<^verbatim>\<open>ValueError\<close> unless the split gave two pieces.
\<close>

fun append_header_fields ::
    "(char \<Rightarrow> bool) \<Rightarrow> string list \<Rightarrow> (string \<times> string) list
       \<Rightarrow> error + (string \<times> string) list" where
  "append_header_fields ws [] extra_fields = Inr extra_fields"
| "append_header_fields ws (header_string # rest) extra_fields =
     (case split1 CHR '':'' header_string of
        [name, val] \<Rightarrow>
          append_header_fields ws rest (extra_fields @ [(strip ws name, strip ws val)])
      | _ \<Rightarrow> Inl ValueError)"

text \<open>
  A recorder made through the registry: the class that was called, then the arguments.
  For \<^verbatim>\<open>WARCRecorder\<close> these are the path, \<^verbatim>\<open>compress\<close>, \<^verbatim>\<open>extra_fields\<close>,
  \<^verbatim>\<open>temp_dir\<close>, \<^verbatim>\<open>log\<close> and \<^verbatim>\<open>appending\<close>.
\<close>

datatype recorder =
    is_WARCRecorder: WARCRecorder (recorder_cls: cls) (warc_path: string) (compress: bool)
      (extra_fields: "(string \<times> string) list") (temp_dir: pyval) (warc_log_arg: pyval)
      (appending: pyval)
  | is_PrintServerResponseRecorder: PrintServerResponseRecorder (recorder_cls: cls)
  | is_ProgressRecorder: ProgressRecorder (recorder_cls: cls)

record demux_recorder =
  demux_cls :: cls
  demux_recorders :: "recorder list"

definition build_recorder :: "env \<Rightarrow> builder \<Rightarrow> error + demux_recorder" where
  "build_recorder env b =
     (let a = self_args b; classes = self_classes b in
      and_then
        (if truthy_str (warc_file a) then
           let warc_path' =
                 (if no_warc_compression a then the_str (warc_file a) @ ''.warc''
                  else the_str (warc_file a) @ ''.warc.gz'');
               extra_fields' = [
                 (''robots'', if robots a then ''on'' else ''off''),
                 (''wpull-arguments'', str_of_args env a)]
           in and_then (append_header_fields (isspace env) (warc_header a) extra_fields')
                (\<lambda>extra_fields'.
              and_then (lookup classes ''WARCRecorder'') (\<lambda>c.
                Inr [WARCRecorder c warc_path' (\<not> no_warc_compression a) extra_fields'
                       (warc_tempdir a) (warc_log a) (warc_append a)]))
         else Inr [])
        (\<lambda>recorders.
      and_then
        (if server_response a then
           and_then (lookup classes ''PrintServerResponseRecorder'') (\<lambda>c.
             Inr (recorders @ [PrintServerResponseRecorder c]))
         else Inr recorders)
        (\<lambda>recorders.
      and_then
        (if verbosity a \<in> set [Some logging_INFO, Some logging_DEBUG, Some logging_WARN, None]
         then and_then (lookup classes ''ProgressRecorder'') (\<lambda>c.
                Inr (recorders @ [ProgressRecorder c]))
         else Inr recorders)
        (\<lambda>recorders.
      and_then (lookup classes ''DemuxRecorder'') (\<lambda>c.
        Inr \<lparr>demux_cls = c, demux_recorders = recorders\<rparr>)))))"


subsection \<open>The file writer\<close>

record path_namer =
  namer_cls :: cls
  namer_directory_prefix :: pyval
  namer_index :: pyval
  namer_use_dir :: bool
  namer_cut :: pyval
  namer_protocol :: pyval
  namer_hostname :: pyval

datatype file_class =
  OverwriteFileWriter | IgnoreFileWriter | TimestampingFileWriter | AntiClobberFileWriter

text \<open>
  A writer is \<^verbatim>\<open>NullWriter()\<close> or \<^verbatim>\<open>file_class(path_namer, file_continuing=...,
  headers_included=..., local_timestamping=...)\<close>.
\<close>

datatype writer =
    is_NullWriter: NullWriter
  | FileWriter (writer_class: file_class) (writer_path_namer: path_namer)
      (file_continuing: bool) (headers_included: pyval) (local_timestamping: pyval)

definition build_file_writer :: "builder \<Rightarrow> error + writer" where
  "build_file_writer b =
     (let a = self_args b in
      if delete_after a then Inr NullWriter
      else
        let use_dir = (length (urls a) \<noteq> 1 \<or> page_requisites a \<or> recursive a);
            use_dir = (if use_directories a = Some ''force'' then True
                       else if use_directories a = Some ''no'' then False
                       else use_dir)
        in and_then (lookup (self_classes b) ''PathNamer'') (\<lambda>c.
             let path_namer = \<lparr>
                   namer_cls = c,
                   namer_directory_prefix = directory_prefix a,
                   namer_index = default_page a,
                   namer_use_dir = use_dir,
                   namer_cut = cut_dirs a,
                   namer_protocol = protocol_directories a,
                   namer_hostname = host_directories a\<rparr>;
                 file_class =
                   (if recursive a \<or> page_requisites a \<or> continue_download a then
                      (if clobber_method a = Some ''disable'' then OverwriteFileWriter
                       else IgnoreFileWriter)
                    else if timestamping a then TimestampingFileWriter
                    else AntiClobberFileWriter)
             in Inr (FileWriter file_class path_namer (continue_download a)
                       (save_headers a) (use_server_timestamps a))))"

subsection \<open>The request factory\<close>

text \<open>
  \<^verbatim>\<open>request_factory\<close> is a closure over the builder. The request it returns is the
  result of \<^verbatim>\<open>Request.new\<close> on the caller's arguments, followed by the operations the
  factory performs on \<^verbatim>\<open>request.fields\<close>, in order: an item assignment
  \<^verbatim>\<open>fields[name] = value\<close> or a call \<^verbatim>\<open>fields.parse(string)\<close>.
\<close>

type_synonym call_args = "pyval list \<times> (string \<times> pyval) list"

datatype field_op = setitem string string | parse string

record request =
  request_cls :: cls
  new_args :: call_args
  field_ops :: "field_op list"

datatype request_factory = request_factory_closure builder

fun call_request_factory :: "env \<Rightarrow> request_factory \<Rightarrow> call_args \<Rightarrow> error + request" where
  "call_request_factory env (request_factory_closure self) args_kwargs =
     and_then (lookup (self_classes self) ''Request'') (\<lambda>c.
       let request = \<lparr>request_cls = c, new_args = args_kwargs, field_ops = []\<rparr>;
           user_agent' =
             (if truthy_str (user_agent (self_args self))
              then the_str (user_agent (self_args self))
              else ''Mozilla/5.0 (compatible) Wpull/'' @ wpull_version env);
           request = request\<lparr>field_ops :=
                       field_ops request @ [setitem ''User-Agent'' user_agent']\<rparr>;
           request =
             (if truthy_str (referer (self_args self))
              then request\<lparr>field_ops := field_ops request
                             @ [setitem ''Referer'' (the_str (referer (self_args self)))]\<rparr>
              else request);
           request =
             foldl (\<lambda>request header_string.
                      request\<lparr>field_ops := field_ops request @ [parse header_string]\<rparr>)
               request (header (self_args self))
       in Inr request)"

definition build_request_factory :: "builder \<Rightarrow> request_factory" where
  "build_request_factory b = request_factory_closure b"

text \<open>
  Modelled from the spec: the comparison of field names. The class of
  \<^verbatim>\<open>request.fields\<close> is not under \<^verbatim>\<open>src/\<close>; the spec's data model gives header
  fields case-insensitive keys, so names are compared after lowering the ASCII letters.
\<close>

definition lower_char :: "char \<Rightarrow> char" where
  "lower_char c =
     (case map_of (zip ''ABCDEFGHIJKLMNOPQRSTUVWXYZ'' ''abcdefghijklmnopqrstuvwxyz'') c of
        None \<Rightarrow> c
      | Some l \<Rightarrow> l)"

definition lower :: "string \<Rightarrow> string" where
  "lower s = map lower_char s"

text \<open>
  Modelled from the spec: the name and value an operation on \<^verbatim>\<open>request.fields\<close>
  puts into the field set (its class is not under \<^verbatim>\<open>src/\<close>). The spec has header
  fields as ordered pairs of name and value, duplicates allowed, and has the request
  factory attach caller-supplied headers such as User-Agent and Referer. An item
  assignment puts in its name and value; a parsed header line puts in the text before
  its first colon and the text after it, both stripped; a line without a colon puts in
  nothing.
\<close>

fun field_of :: "(char \<Rightarrow> bool) \<Rightarrow> field_op \<Rightarrow> (string \<times> string) option" where
  "field_of ws (setitem name val) = Some (name, val)"
| "field_of ws (parse header_string) =
     (case split_at_first CHR '':'' header_string of
        None \<Rightarrow> None
      | Some (name, val) \<Rightarrow> Some (strip ws name, strip ws val))"

text \<open>
  Modelled from the spec: the fields the factory's operations leave on a request, in
  order, and whether one of them bears a given name. What \<^verbatim>\<open>Request.new\<close> put there
  beforehand is not under \<^verbatim>\<open>src/\<close> and is not counted.
\<close>

definition carried :: "(char \<Rightarrow> bool) \<Rightarrow> request \<Rightarrow> (string \<times> string) list" where
  "carried ws request = List.map_filter (field_of ws) (field_ops request)"

definition carries :: "(char \<Rightarrow> bool) \<Rightarrow> string \<Rightarrow> request \<Rightarrow> bool" where
  "carries ws name request =
     list_ex (\<lambda>(n, v). lower n = lower name) (carried ws request)"

text \<open>
  Modelled from the spec: whether a header line, parsed into the field set, bears a
  given name.
\<close>

definition names_field :: "(char \<Rightarrow> bool) \<Rightarrow> string \<Rightarrow> string \<Rightarrow> bool" where
  "names_field ws name header_string =
     (case field_of ws (parse header_string) of
        None \<Rightarrow> False
      | Some (n, v) \<Rightarrow> lower n = lower name)"

subsection \<open>The HTTP client\<close>

datatype family = IPv4 | IPv6

record resolver =
  resolver_cls :: cls
  resolver_families :: "family list"
  resolver_timeout :: "rat option"
  resolver_rotate :: pyval

record connection =
  connection_cls :: cls
  connection_args :: "pyval list"
  connection_resolver :: resolver
  connection_connect_timeout :: "rat option"
  connection_read_timeout :: "rat option"
  connection_keep_alive :: pyval
  connection_kwargs :: "(string \<times> pyval) list"

text \<open>
  \<^verbatim>\<open>connection_factory\<close> closes over the builder, the resolver and the two timeouts.
  A call \<^verbatim>\<open>f(*args, k=v, **kwargs)\<close> raises \<^verbatim>\<open>TypeError\<close> when \<^verbatim>\<open>kwargs\<close> holds
  \<^verbatim>\<open>k\<close> as well, naming the first such key of \<^verbatim>\<open>kwargs\<close>.
\<close>

datatype connection_factory =
  connection_factory_closure (closure_self: builder) (closure_resolver: resolver)
    (closure_connect_timeout: "rat option") (closure_read_timeout: "rat option")

definition repeated_keyword :: "string list \<Rightarrow> (string \<times> pyval) list \<Rightarrow> string option" where
  "repeated_keyword names kwargs =
     (case filter (\<lambda>k. k \<in> set names) (map fst kwargs) of
        [] \<Rightarrow> None
      | k # _ \<Rightarrow> Some k)"

fun call_connection_factory :: "connection_factory \<Rightarrow> call_args \<Rightarrow> error + connection" where
  "call_connection_factory
     (connection_factory_closure self resolver connect_timeout' read_timeout')
     (args, kwargs) =
     and_then (lookup (self_classes self) ''Connection'') (\<lambda>c.
       case repeated_keyword
              [''resolver'', ''connect_timeout'', ''read_timeout'', ''keep_alive''] kwargs of
         Some k \<Rightarrow> Inl (TypeError k)
       | None \<Rightarrow> Inr \<lparr>
           connection_cls = c,
           connection_args = args,
           connection_resolver = resolver,
           connection_connect_timeout = connect_timeout',
           connection_read_timeout = read_timeout',
           connection_keep_alive = http_keep_alive (self_args self),
           connection_kwargs = kwargs\<rparr>)"

record host_connection_pool =
  host_pool_cls :: cls
  host_pool_args :: "pyval list"
  host_pool_connection_factory :: connection_factory
  host_pool_kwargs :: "(string \<times> pyval) list"

datatype host_connection_pool_factory =
  host_connection_pool_factory_closure (host_closure_self: builder)
    (host_closure_connection_factory: connection_factory)

fun call_host_connection_pool_factory ::
    "host_connection_pool_factory \<Rightarrow> call_args \<Rightarrow> error + host_connection_pool" where
  "call_host_connection_pool_factory
     (host_connection_pool_factory_closure self connection_factory) (args, kwargs) =
     and_then (lookup (self_classes self) ''HostConnectionPool'') (\<lambda>c.
       case repeated_keyword [''connection_factory''] kwargs of
         Some k \<Rightarrow> Inl (TypeError k)
       | None \<Rightarrow> Inr \<lparr>
           host_pool_cls = c,
           host_pool_args = args,
           host_pool_connection_factory = connection_factory,
           host_pool_kwargs = kwargs\<rparr>)"

record connection_pool =
  pool_cls :: cls
  pool_host_connection_pool_factory :: host_connection_pool_factory

record client =
  client_cls :: cls
  client_connection_pool :: connection_pool
  client_recorder :: demux_recorder

definition build_http_client :: "env \<Rightarrow> builder \<Rightarrow> error + client" where
  "build_http_client env b =
     (let a = self_args b;
          dns_timeout' = dns_timeout a;
          connect_timeout' = connect_timeout a;
          read_timeout' = read_timeout a;
          (dns_timeout', connect_timeout', read_timeout') =
            (if truthy_num (timeout a) then (timeout a, timeout a, timeout a)
             else (dns_timeout', connect_timeout', read_timeout'));
          families =
            (if inet_family a = Some ''IPv4'' then [IPv4]
             else if inet_family a = Some ''IPv6'' then [IPv6]
             else if prefer_family a = Some ''IPv6'' then [IPv6, IPv4]
             else [IPv4, IPv6])
      in and_then (lookup (self_classes b) ''Resolver'') (\<lambda>c.
           let resolver = \<lparr>
                 resolver_cls = c,
                 resolver_families = families,
                 resolver_timeout = dns_timeout',
                 resolver_rotate = rotate_dns a\<rparr>;
               connection_factory =
                 connection_factory_closure b resolver connect_timeout' read_timeout';
               host_connection_pool_factory =
                 host_connection_pool_factory_closure b connection_factory
           in and_then (lookup (self_classes b) ''ConnectionPool'') (\<lambda>pc.
                let connection_pool = \<lparr>
                      pool_cls = pc,
                      pool_host_connection_pool_factory = host_connection_pool_factory\<rparr>
                in and_then (build_recorder env b) (\<lambda>recorder.
                   and_then (lookup (self_classes b) ''Client'') (\<lambda>cc.
                     Inr \<lparr>client_cls = cc,
                          client_connection_pool = connection_pool,
                          client_recorder = recorder\<rparr>)))))"

text \<open>The connection factory a client's pool ends up with, and its resolver.\<close>

definition client_connection_factory :: "client \<Rightarrow> connection_factory" where
  "client_connection_factory c =
     host_closure_connection_factory
       (pool_host_connection_pool_factory (client_connection_pool c))"

definition client_resolver :: "client \<Rightarrow> resolver" where
  "client_resolver c = closure_resolver (client_connection_factory c)"

subsection \<open>The processor and the engine\<close>

record waiter =
  waiter_cls :: cls
  waiter_wait :: pyval
  waiter_random_wait :: pyval
  waiter_max_wait :: pyval

record processor =
  processor_cls :: cls
  processor_url_filters :: "url_filter list"
  processor_document_scrapers :: "scraper list"
  processor_file_writer :: writer
  processor_waiter :: waiter
  processor_request_factory :: request_factory
  processor_retry_connrefused :: pyval
  processor_retry_dns_error :: pyval
  processor_max_redirects :: pyval
  processor_robots :: bool

definition build_processor :: "builder \<Rightarrow> error + processor" where
  "build_processor b =
     (let a = self_args b;
          url_filters = build_url_filters b;
          document_scrapers = build_document_scrapers b
      in and_then (build_file_writer b) (\<lambda>file_writer.
         and_then (lookup (self_classes b) ''Waiter'') (\<lambda>wc.
           let waiter = \<lparr>
                 waiter_cls = wc,
                 waiter_wait = wait a,
                 waiter_random_wait = random_wait a,
                 waiter_max_wait = waitretry a\<rparr>
           in and_then (lookup (self_classes b) ''WebProcessor'') (\<lambda>pc.
                Inr \<lparr>
                  processor_cls = pc,
                  processor_url_filters = url_filters,
                  processor_document_scrapers = document_scrapers,
                  processor_file_writer = file_writer,
                  processor_waiter = waiter,
                  processor_request_factory = build_request_factory b,
                  processor_retry_connrefused = retry_connrefused a,
                  processor_retry_dns_error = retry_dns_error a,
                  processor_max_redirects = max_redirect a,
                  processor_robots = robots a\<rparr>))))"

record engine =
  engine_cls :: cls
  engine_url_table :: url_table
  engine_http_client :: client
  engine_processor :: processor
  engine_concurrent :: pyval

text \<open>
  \<^verbatim>\<open>build\<close> returns the engine; the builder as the hooks left it and the calls made
  on the process are kept beside it.
\<close>

record built =
  built_engine :: engine
  built_self :: builder
  built_effects :: "effect list"

definition build :: "env \<Rightarrow> builder \<Rightarrow> error + built" where
  "build env self0 =
     (let effects1 = setup_logging self0 in
      and_then (setup_file_logger env self0) (\<lambda>effects2.
      case install_script_hooks env self0 of (hooked, self) \<Rightarrow>
      and_then hooked (\<lambda>effects3.
      and_then (build_url_table self) (\<lambda>url_table.
      and_then (build_processor self) (\<lambda>processor.
      and_then (build_http_client env self) (\<lambda>http_client.
      and_then (lookup (self_classes self) ''Engine'') (\<lambda>c.
        Inr \<lparr>built_engine = \<lparr>
               engine_cls = c,
               engine_url_table = url_table,
               engine_http_client = http_client,
               engine_processor = processor,
               engine_concurrent = concurrent (self_args self)\<rparr>,
             built_self = self,
             built_effects = effects1 @ effects2 @ effects3\<rparr>)))))))"

text \<open>
  \<^verbatim>\<open>build_and_run\<close>: the engine is run by the I/O loop, here the parameter
  \<open>run_sync\<close>, and its result is the exit code.
\<close>

definition build_and_run ::
    "env \<Rightarrow> (engine \<Rightarrow> error + int) \<Rightarrow> builder \<Rightarrow> error + int" where
  "build_and_run env run_sync self0 =
     and_then (build env self0) (\<lambda>r. run_sync (built_engine r))"


subsection \<open>A sample configuration\<close>

text \<open>
  A command line with one URL and every option at a plain value, an environment in
  which \<^verbatim>\<open>hook.py\<close> is the one script file that opens, and the builder
  \<^verbatim>\<open>Builder(args)\<close> of that environment. The examples below vary single options.
\<close>

definition example_env :: env where
  "example_env = \<lparr>
     URLInfo_parse = (\<lambda>c s d. if s = [] then Inl (ParseError s) else Inr \<lparr>url = s\<rparr>),
     wpull_version = ''0.1'',
     str_of_args = (\<lambda>a. ''Namespace()''),
     isspace = (\<lambda>c. c = CHR '' ''),
     FileHandler_opens = (\<lambda>f m. True),
     abspath = (\<lambda>f. ''/home/user/'' @ f),
     open_succeeds = (\<lambda>f. f = ''hook.py''),
     compile_exec_succeeds = (\<lambda>f. True)\<rparr>"

definition example_args :: args where
  "example_args = \<lparr>
  concurrent = PyInt 1,
  verbosity = None,
  output_file = None,
  append_output = None,
  python_script = None,
  urls = [''http://a.test/''],
  input_file = None,
  domains = PyNone,
  exclude_domains = PyNone,
  hostnames = PyNone,
  exclude_hostnames = PyNone,
  tries = PyInt 20,
  recursive = False,
  page_requisites = False,
  level = PyInt 5,
  span_hosts = PyBool False,
  accept_regex = PyNone,
  reject_regex = PyNone,
  include_directories = PyNone,
  exclude_directories = PyNone,
  no_parent = False,
  follow_tags = PyNone,
  ignore_tags = PyNone,
  relative = PyBool False,
  robots = True,
  database = PyStr '':memory:'',
  warc_file = None,
  no_warc_compression = False,
  warc_header = [],
  warc_tempdir = PyNone,
  warc_log = PyBool True,
  warc_append = PyBool False,
  server_response = False,
  wait = PyNum 0,
  random_wait = PyBool False,
  waitretry = PyNum 10,
  retry_connrefused = PyBool False,
  retry_dns_error = PyBool False,
  max_redirect = PyInt 20,
  delete_after = False,
  use_directories = None,
  directory_prefix = PyStr ''.'',
  default_page = PyStr ''index.html'',
  cut_dirs = PyNone,
  protocol_directories = PyBool False,
  host_directories = PyBool True,
  continue_download = False,
  clobber_method = None,
  timestamping = False,
  save_headers = PyBool False,
  use_server_timestamps = PyBool True,
  user_agent = None,
  referer = None,
  header = [],
  dns_timeout = None,
  connect_timeout = None,
  read_timeout = Some 900,
  timeout = None,
  inet_family = None,
  prefer_family = None,
  rotate_dns = PyBool False,
  http_keep_alive = PyBool True\<rparr>"

definition example_builder :: "args \<Rightarrow> builder" where
  "example_builder a =
     \<lparr>self_args = a, self_classes = initial_classes,
      self_url_infos =
        map (\<lambda>s. \<lparr>url = s\<rparr>)
          (urls a @ (case input_file a of None \<Rightarrow> [] | Some lines \<Rightarrow> lines))\<rparr>"


section \<open>Auxiliary facts\<close>

subsection \<open>Results and registry lookups\<close>

lemma and_then_Inr [simp]: "and_then (Inr x) f = f x"
  by (simp add: and_then_def)

lemma and_then_Inl [simp]: "and_then (Inl e) f = Inl e"
  by (simp add: and_then_def)

lemma and_then_eq_Inr: "and_then m f = Inr y \<longleftrightarrow> (\<exists>x. m = Inr x \<and> f x = Inr y)"
  by (cases m) simp_all

lemma lookup_eq_Inr: "lookup classes name = Inr c \<longleftrightarrow> classes name = Some c"
  by (simp add: lookup_def split: option.splits)

lemma initial_classes_simps:
  "initial_classes ''URLInfo'' = Some URLInfo_cls"
  "initial_classes ''URLTable'' = Some URLTable_cls"
  "initial_classes ''HTMLScraper'' = Some HTMLScraper_cls"
  "initial_classes ''CSSScraper'' = Some Engine_cls"
  "initial_classes ''Client'' = Some Client_cls"
  "initial_classes ''Connection'' = Some Connection_cls"
  "initial_classes ''HostConnectionPool'' = Some HostConnectionPool_cls"
  "initial_classes ''ConnectionPool'' = Some ConnectionPool_cls"
  "initial_classes ''Request'' = Some Request_cls"
  "initial_classes ''Resolver'' = Some Resolver_cls"
  "initial_classes ''WebProcessor'' = Some WebProcessor_cls"
  "initial_classes ''WARCRecorder'' = Some WARCRecorder_cls"
  "initial_classes ''DemuxRecorder'' = Some DemuxRecorder_cls"
  "initial_classes ''PrintServerResponseRecorder'' = Some PrintServerResponseRecorder_cls"
  "initial_classes ''ProgressRecorder'' = Some ProgressRecorder_cls"
  "initial_classes ''Waiter'' = Some LinearWaiter_cls"
  "initial_classes ''PathNamer'' = Some PathNamer_cls"
  "initial_classes ''Engine'' = Some Engine_cls"
  by (simp_all add: initial_classes_def)

subsection \<open>The constructor and the script hooks\<close>

lemma Builder_init_Inr:
  assumes "Builder_init env a = Inr b"
  shows "self_args b = a" and "self_classes b = initial_classes"
    and "build_input_urls env a initial_classes ''http'' = Inr (self_url_infos b)"
  using assms by (auto simp: Builder_init_def and_then_eq_Inr)

lemma install_python_script_frame:
  "self_args (snd (install_python_script env b f)) = self_args b"
  "self_url_infos (snd (install_python_script env b f)) = self_url_infos b"
  by (simp_all add: install_python_script_def Let_def)

lemma install_script_hooks_frame:
  "self_args (snd (install_script_hooks env b)) = self_args b"
  "self_url_infos (snd (install_script_hooks env b)) = self_url_infos b"
  by (simp_all add: install_script_hooks_def install_python_script_frame)

lemma install_python_script_classes:
  "self_classes (snd (install_python_script env b f)) =
     (if open_succeeds env f
      then (self_classes b)(''Engine'' \<mapsto> engine_factory,
             ''WebProcessor'' \<mapsto> web_processor_factory,
             ''Resolver'' \<mapsto> resolver_factory)
      else self_classes b)"
  by (simp add: install_python_script_def Let_def)

lemma install_script_hooks_classes:
  "self_classes (snd (install_script_hooks env b)) =
     (if truthy_str (python_script (self_args b))
         \<and> open_succeeds env (the_str (python_script (self_args b)))
      then (self_classes b)(''Engine'' \<mapsto> engine_factory,
             ''WebProcessor'' \<mapsto> web_processor_factory,
             ''Resolver'' \<mapsto> resolver_factory)
      else self_classes b)"
  by (simp add: install_script_hooks_def install_python_script_classes)

lemma install_script_hooks_other:
  "k \<noteq> ''Engine'' \<Longrightarrow> k \<noteq> ''WebProcessor'' \<Longrightarrow> k \<noteq> ''Resolver'' \<Longrightarrow>
   self_classes (snd (install_script_hooks env b)) k = self_classes b k"
  by (simp add: install_script_hooks_classes)

lemma install_script_hooks_ok_opened:
  "install_script_hooks env b = (Inr es, b') \<Longrightarrow> truthy_str (python_script (self_args b)) \<Longrightarrow>
   open_succeeds env (the_str (python_script (self_args b)))"
  by (auto simp: install_script_hooks_def install_python_script_def Let_def split: if_splits)

lemma hooked_classes_other:
  assumes "Builder_init env a = Inr self0"
    and "k \<noteq> ''Engine''" and "k \<noteq> ''WebProcessor''" and "k \<noteq> ''Resolver''"
  shows "self_classes (snd (install_script_hooks env self0)) k = initial_classes k"
  using assms by (simp add: install_script_hooks_other Builder_init_Inr(2))

lemma hooked_args:
  assumes "Builder_init env a = Inr self0"
  shows "self_args (snd (install_script_hooks env self0)) = a"
  using assms by (simp add: install_script_hooks_frame Builder_init_Inr(1))

lemma parse_each_initial:
  "parse_each env initial_classes d us = Inr infos \<Longrightarrow>
   list_all2 (\<lambda>url_string url_info. URLInfo_parse env URLInfo_cls url_string d = Inr url_info)
     us infos"
proof (induction us arbitrary: infos)
  case Nil
  then show ?case by simp
next
  case (Cons u us)
  from Cons.prems obtain i rest where i: "URLInfo_parse env URLInfo_cls u d = Inr i"
    and rest: "parse_each env initial_classes d us = Inr rest" and infos: "infos = i # rest"
    by (auto simp: and_then_eq_Inr lookup_eq_Inr initial_classes_simps)
  with Cons.IH [OF rest] show ?case by simp
qed

subsection \<open>What a successful build is made of\<close>

lemma build_Inr:
  assumes "build env self0 = Inr r"
  shows "\<exists>es. install_script_hooks env self0 = (Inr es, built_self r)"
    and "build_url_table (built_self r) = Inr (engine_url_table (built_engine r))"
    and "build_processor (built_self r) = Inr (engine_processor (built_engine r))"
    and "build_http_client env (built_self r) = Inr (engine_http_client (built_engine r))"
    and "lookup (self_classes (built_self r)) ''Engine'' = Inr (engine_cls (built_engine r))"
proof -
  obtain hooked self where h: "install_script_hooks env self0 = (hooked, self)"
    by (cases "install_script_hooks env self0")
  from assms h obtain e2 e3 ut p c cl where
    "hooked = Inr e3" and "build_url_table self = Inr ut" and "build_processor self = Inr p"
    and "build_http_client env self = Inr c" and "lookup (self_classes self) ''Engine'' = Inr cl"
    and "r = \<lparr>built_engine = \<lparr>engine_cls = cl, engine_url_table = ut,
                 engine_http_client = c, engine_processor = p,
                 engine_concurrent = concurrent (self_args self)\<rparr>,
               built_self = self, built_effects = setup_logging self0 @ e2 @ e3\<rparr>"
    by (auto simp: build_def Let_def and_then_eq_Inr)
  with h show "\<exists>es. install_script_hooks env self0 = (Inr es, built_self r)"
    and "build_url_table (built_self r) = Inr (engine_url_table (built_engine r))"
    and "build_processor (built_self r) = Inr (engine_processor (built_engine r))"
    and "build_http_client env (built_self r) = Inr (engine_http_client (built_engine r))"
    and "lookup (self_classes (built_self r)) ''Engine'' = Inr (engine_cls (built_engine r))"
    by simp_all
qed

lemma build_self:
  assumes "build env self0 = Inr r"
  shows "built_self r = snd (install_script_hooks env self0)"
  using build_Inr(1) [OF assms] by auto

lemma build_url_table_Inr:
  assumes "build_url_table b = Inr t"
  shows "table_calls t = [add (map url (self_url_infos b))]"
    and "table_path t = database (self_args b)"
    and "self_classes b ''URLTable'' = Some (table_cls t)"
  using assms by (auto simp: build_url_table_def Let_def and_then_eq_Inr lookup_eq_Inr)

lemma build_processor_Inr:
  assumes "build_processor b = Inr p"
  shows "processor_url_filters p = build_url_filters b"
    and "processor_document_scrapers p = build_document_scrapers b"
    and "build_file_writer b = Inr (processor_file_writer p)"
    and "processor_request_factory p = build_request_factory b"
proof -
  from assms obtain w wc pc where "build_file_writer b = Inr w"
    and "p = \<lparr>
           processor_cls = pc,
           processor_url_filters = build_url_filters b,
           processor_document_scrapers = build_document_scrapers b,
           processor_file_writer = w,
           processor_waiter = \<lparr>
             waiter_cls = wc,
             waiter_wait = wait (self_args b),
             waiter_random_wait = random_wait (self_args b),
             waiter_max_wait = waitretry (self_args b)\<rparr>,
           processor_request_factory = build_request_factory b,
           processor_retry_connrefused = retry_connrefused (self_args b),
           processor_retry_dns_error = retry_dns_error (self_args b),
           processor_max_redirects = max_redirect (self_args b),
           processor_robots = robots (self_args b)\<rparr>"
    by (auto simp: build_processor_def Let_def and_then_eq_Inr)
  then show "processor_url_filters p = build_url_filters b"
    and "processor_document_scrapers p = build_document_scrapers b"
    and "build_file_writer b = Inr (processor_file_writer p)"
    and "processor_request_factory p = build_request_factory b"
    by simp_all
qed

lemma build_http_client_Inr:
  assumes "build_http_client env b = Inr c"
  shows "build_recorder env b = Inr (client_recorder c)"
    and "closure_self (client_connection_factory c) = b"
    and "closure_connect_timeout (client_connection_factory c) =
           (if truthy_num (timeout (self_args b)) then timeout (self_args b)
            else connect_timeout (self_args b))"
    and "closure_read_timeout (client_connection_factory c) =
           (if truthy_num (timeout (self_args b)) then timeout (self_args b)
            else read_timeout (self_args b))"
    and "resolver_timeout (client_resolver c) =
           (if truthy_num (timeout (self_args b)) then timeout (self_args b)
            else dns_timeout (self_args b))"
    and "resolver_rotate (client_resolver c) = rotate_dns (self_args b)"
    and "resolver_families (client_resolver c) =
           (if inet_family (self_args b) = Some ''IPv4'' then [IPv4]
            else if inet_family (self_args b) = Some ''IPv6'' then [IPv6]
            else if prefer_family (self_args b) = Some ''IPv6'' then [IPv6, IPv4]
            else [IPv4, IPv6])"
    and "lookup (self_classes b) ''Resolver'' = Inr (resolver_cls (client_resolver c))"
proof -
  let ?a = "self_args b"
  from assms obtain rc pc rec cc where rec: "build_recorder env b = Inr rec"
    and rc: "lookup (self_classes b) ''Resolver'' = Inr rc"
    and c: "c = \<lparr>client_cls = cc,
          client_connection_pool = \<lparr>
            pool_cls = pc,
            pool_host_connection_pool_factory =
              host_connection_pool_factory_closure b
                (connection_factory_closure b
                   \<lparr>resolver_cls = rc,
                    resolver_families =
                      (if inet_family ?a = Some ''IPv4'' then [IPv4]
                       else if inet_family ?a = Some ''IPv6'' then [IPv6]
                       else if prefer_family ?a = Some ''IPv6'' then [IPv6, IPv4]
                       else [IPv4, IPv6]),
                    resolver_timeout =
                      (if truthy_num (timeout ?a) then timeout ?a else dns_timeout ?a),
                    resolver_rotate = rotate_dns ?a\<rparr>
                   (if truthy_num (timeout ?a) then timeout ?a else connect_timeout ?a)
                   (if truthy_num (timeout ?a) then timeout ?a else read_timeout ?a))\<rparr>,
          client_recorder = rec\<rparr>"
    by (cases "truthy_num (timeout ?a)")
       (auto simp: build_http_client_def Let_def and_then_eq_Inr)
  show "build_recorder env b = Inr (client_recorder c)"
    using rec c by simp
  show "closure_self (client_connection_factory c) = b"
    using c by (simp add: client_connection_factory_def)
  show "closure_connect_timeout (client_connection_factory c) =
           (if truthy_num (timeout ?a) then timeout ?a else connect_timeout ?a)"
    using c by (simp add: client_connection_factory_def)
  show "closure_read_timeout (client_connection_factory c) =
           (if truthy_num (timeout ?a) then timeout ?a else read_timeout ?a)"
    using c by (simp add: client_connection_factory_def)
  show "resolver_timeout (client_resolver c) =
           (if truthy_num (timeout ?a) then timeout ?a else dns_timeout ?a)"
    using c by (simp add: client_connection_factory_def client_resolver_def)
  show "resolver_rotate (client_resolver c) = rotate_dns ?a"
    using c by (simp add: client_connection_factory_def client_resolver_def)
  show "resolver_families (client_resolver c) =
           (if inet_family ?a = Some ''IPv4'' then [IPv4]
            else if inet_family ?a = Some ''IPv6'' then [IPv6]
            else if prefer_family ?a = Some ''IPv6'' then [IPv6, IPv4]
            else [IPv4, IPv6])"
    using c by (simp add: client_connection_factory_def client_resolver_def)
  show "lookup (self_classes b) ''Resolver'' = Inr (resolver_cls (client_resolver c))"
    using c rc by (simp add: client_connection_factory_def client_resolver_def)
qed

lemma call_connection_factory_Inr:
  assumes "call_connection_factory cf ak = Inr conn"
  shows "connection_connect_timeout conn = closure_connect_timeout cf"
    and "connection_read_timeout conn = closure_read_timeout cf"
    and "connection_resolver conn = closure_resolver cf"
    and "connection_keep_alive conn = http_keep_alive (self_args (closure_self cf))"
  using assms
  by (cases cf; cases ak; auto simp: and_then_eq_Inr split: option.splits)+

lemma request_ops_foldl:
  "field_ops (foldl (\<lambda>request header_string.
                       request\<lparr>field_ops := field_ops request @ [parse header_string]\<rparr>) r hs)
     = field_ops r @ map parse hs"
  "request_cls (foldl (\<lambda>request header_string.
                       request\<lparr>field_ops := field_ops request @ [parse header_string]\<rparr>) r hs)
     = request_cls r"
  "new_args (foldl (\<lambda>request header_string.
                       request\<lparr>field_ops := field_ops request @ [parse header_string]\<rparr>) r hs)
     = new_args r"
  by (induction hs arbitrary: r) simp_all

lemma call_request_factory_Inr:
  assumes "call_request_factory env (build_request_factory b) ak = Inr request"
  shows "field_ops request =
           setitem ''User-Agent''
             (if truthy_str (user_agent (self_args b)) then the_str (user_agent (self_args b))
              else ''Mozilla/5.0 (compatible) Wpull/'' @ wpull_version env)
           # (if truthy_str (referer (self_args b))
              then [setitem ''Referer'' (the_str (referer (self_args b)))] else [])
           @ map parse (header (self_args b))"
    and "new_args request = ak"
    and "self_classes b ''Request'' = Some (request_cls request)"
  using assms
  by (auto simp: build_request_factory_def Let_def and_then_eq_Inr lookup_eq_Inr
        request_ops_foldl)

text \<open>The fields of a request are those its operations put in.\<close>

lemma set_map_filter: "set (List.map_filter f xs) = {y. \<exists>x \<in> set xs. f x = Some y}"
  by (induction xs) (auto simp: List.map_filter_simps split: option.splits)

lemma in_carried:
  "p \<in> set (carried ws request) \<longleftrightarrow> (\<exists>op \<in> set (field_ops request). field_of ws op = Some p)"
  by (simp add: carried_def set_map_filter)

lemma carries_ops:
  "carries ws name request \<longleftrightarrow>
     (\<exists>op \<in> set (field_ops request). \<exists>n v. field_of ws op = Some (n, v) \<and> lower n = lower name)"
  unfolding carries_def list_ex_iff by (force simp: in_carried)

subsection \<open>Splitting, stripping and the sinks of the recorder\<close>

lemma split_at_first_Some:
  "split_at_first sep s = Some (before, after) \<Longrightarrow>
   s = before @ sep # after \<and> sep \<notin> set before"
  by (induction s arbitrary: before) (auto split: if_splits option.splits)

lemma split_at_first_None: "split_at_first sep s = None \<longleftrightarrow> sep \<notin> set s"
  by (induction s) (auto split: option.splits)

lemma split1_two:
  "split1 sep s = [x, y] \<longleftrightarrow> split_at_first sep s = Some (x, y)"
  by (auto simp: split1_def split: option.splits)

lemma split1_shape:
  "split1 sep s = [s] \<and> sep \<notin> set s \<or>
   (\<exists>x y. split1 sep s = [x, y] \<and> s = x @ sep # y \<and> sep \<notin> set x)"
proof (cases "split_at_first sep s")
  case None
  then show ?thesis
    by (simp add: split1_def split_at_first_None [symmetric])
next
  case (Some p)
  obtain x y where p: "p = (x, y)" by (cases p)
  with Some split_at_first_Some [of sep s x y] show ?thesis
    by (simp add: split1_def)
qed

lemma append_header_fields_Inr:
  "append_header_fields ws hs acc = Inr ef \<Longrightarrow>
   \<exists>parts. ef = acc @ parts \<and>
     list_all2 (\<lambda>h (name, val). \<exists>raw_name raw_val.
                  h = raw_name @ CHR '':'' # raw_val \<and> CHR '':'' \<notin> set raw_name \<and>
                  name = strip ws raw_name \<and> val = strip ws raw_val) hs parts"
proof (induction hs arbitrary: acc)
  case Nil
  then show ?case by simp
next
  case (Cons h hs)
  from split1_shape [of "CHR '':''" h] show ?case
  proof (elim disjE conjE exE)
    assume "split1 CHR '':'' h = [h]"
    with Cons.prems show ?thesis by simp
  next
    fix x y
    assume two: "split1 CHR '':'' h = [x, y]" and h: "h = x @ CHR '':'' # y"
      and x: "CHR '':'' \<notin> set x"
    from Cons.prems two
    have "append_header_fields ws hs (acc @ [(strip ws x, strip ws y)]) = Inr ef"
      by simp
    from Cons.IH [OF this] obtain parts where
      ef: "ef = (acc @ [(strip ws x, strip ws y)]) @ parts"
      and rest: "list_all2 (\<lambda>h (name, val). \<exists>raw_name raw_val.
                  h = raw_name @ CHR '':'' # raw_val \<and> CHR '':'' \<notin> set raw_name \<and>
                  name = strip ws raw_name \<and> val = strip ws raw_val) hs parts"
      by blast
    show ?thesis
    proof (intro exI conjI)
      show "ef = acc @ ((strip ws x, strip ws y) # parts)"
        using ef by simp
      show "list_all2 (\<lambda>h (name, val). \<exists>raw_name raw_val.
                  h = raw_name @ CHR '':'' # raw_val \<and> CHR '':'' \<notin> set raw_name \<and>
                  name = strip ws raw_name \<and> val = strip ws raw_val)
              (h # hs) ((strip ws x, strip ws y) # parts)"
        using rest h x by auto
    qed
  qed
qed

lemma append_header_fields_succeeds:
  "\<forall>h \<in> set hs. CHR '':'' \<in> set h \<Longrightarrow> \<exists>ef. append_header_fields ws hs acc = Inr ef"
proof (induction hs arbitrary: acc)
  case Nil
  then show ?case by simp
next
  case (Cons h hs)
  then have "CHR '':'' \<in> set h" by simp
  with split1_shape [of "CHR '':''" h] obtain x y where "split1 CHR '':'' h = [x, y]"
    by auto
  with Cons show ?case by simp
qed

lemma rstrip_spec:
  "\<exists>r. s = rstrip ws s @ r \<and> (\<forall>c \<in> set r. ws c) \<and>
       (rstrip ws s \<noteq> [] \<longrightarrow> \<not> ws (last (rstrip ws s)))"
proof (intro exI conjI)
  show "s = rstrip ws s @ rev (takeWhile ws (rev s))"
    unfolding rstrip_def by (metis rev_append rev_rev_ident takeWhile_dropWhile_id)
  show "\<forall>c \<in> set (rev (takeWhile ws (rev s))). ws c"
    by (auto dest: set_takeWhileD)
  show "rstrip ws s \<noteq> [] \<longrightarrow> \<not> ws (last (rstrip ws s))"
    unfolding rstrip_def by (simp add: last_rev hd_dropWhile)
qed

lemma strip_spec:
  "\<exists>l r. s = l @ strip ws s @ r \<and> (\<forall>c \<in> set l. ws c) \<and> (\<forall>c \<in> set r. ws c) \<and>
         (strip ws s \<noteq> [] \<longrightarrow> \<not> ws (hd (strip ws s)) \<and> \<not> ws (last (strip ws s)))"
proof -
  let ?t = "lstrip ws s"
  obtain r where r: "?t = rstrip ws ?t @ r" and wr: "\<forall>c \<in> set r. ws c"
    and lastr: "rstrip ws ?t \<noteq> [] \<longrightarrow> \<not> ws (last (rstrip ws ?t))"
    using rstrip_spec [of ?t ws] by blast
  have s: "s = takeWhile ws s @ strip ws s @ r"
    using r by (metis lstrip_def strip_def takeWhile_dropWhile_id)
  have hd: "\<not> ws (hd (strip ws s))" if ne: "strip ws s \<noteq> []"
  proof -
    from ne r have "?t \<noteq> []" and "hd (strip ws s) = hd ?t"
      by (metis append_Nil2 append_is_Nil_conv strip_def, metis hd_append2 strip_def)
    then show ?thesis
      by (simp add: lstrip_def hd_dropWhile)
  qed
  show ?thesis
  proof (intro exI conjI)
    show "s = takeWhile ws s @ strip ws s @ r" by (rule s)
    show "\<forall>c \<in> set (takeWhile ws s). ws c" by (auto dest: set_takeWhileD)
    show "\<forall>c \<in> set r. ws c" by (rule wr)
    show "strip ws s \<noteq> [] \<longrightarrow> \<not> ws (hd (strip ws s)) \<and> \<not> ws (last (strip ws s))"
      using hd lastr by (simp add: strip_def)
  qed
qed

lemma build_recorder_Inr:
  assumes "build_recorder env b = Inr rec"
  shows "self_classes b ''DemuxRecorder'' = Some (demux_cls rec)"
    and "\<exists>warc printer progress.
           demux_recorders rec = warc @ printer @ progress \<and>
           (if truthy_str (warc_file (self_args b))
            then \<exists>c ef. self_classes b ''WARCRecorder'' = Some c \<and>
                   append_header_fields (isspace env) (warc_header (self_args b))
                     [(''robots'', if robots (self_args b) then ''on'' else ''off''),
                      (''wpull-arguments'', str_of_args env (self_args b))] = Inr ef \<and>
                   warc = [WARCRecorder c
                             (the_str (warc_file (self_args b))
                                @ (if no_warc_compression (self_args b) then ''.warc''
                                   else ''.warc.gz''))
                             (\<not> no_warc_compression (self_args b)) ef
                             (warc_tempdir (self_args b)) (warc_log (self_args b))
                             (warc_append (self_args b))]
            else warc = []) \<and>
           (if server_response (self_args b)
            then \<exists>c. self_classes b ''PrintServerResponseRecorder'' = Some c \<and>
                   printer = [PrintServerResponseRecorder c]
            else printer = []) \<and>
           (if verbosity (self_args b)
                 \<in> {Some logging_INFO, Some logging_DEBUG, Some logging_WARN, None}
            then \<exists>c. self_classes b ''ProgressRecorder'' = Some c \<and>
                   progress = [ProgressRecorder c]
            else progress = [])"
proof -
  let ?a = "self_args b"
  let ?warc = "if truthy_str (warc_file ?a) then
           let warc_path' =
                 (if no_warc_compression ?a then the_str (warc_file ?a) @ ''.warc''
                  else the_str (warc_file ?a) @ ''.warc.gz'');
               extra_fields' = [
                 (''robots'', if robots ?a then ''on'' else ''off''),
                 (''wpull-arguments'', str_of_args env ?a)]
           in and_then (append_header_fields (isspace env) (warc_header ?a) extra_fields')
                (\<lambda>extra_fields'.
              and_then (lookup (self_classes b) ''WARCRecorder'') (\<lambda>c.
                Inr [WARCRecorder c warc_path' (\<not> no_warc_compression ?a) extra_fields'
                       (warc_tempdir ?a) (warc_log ?a) (warc_append ?a)]))
         else Inr []"
  from assms obtain r1 r2 r3 dc where r1: "?warc = Inr r1"
    and r2: "(if server_response ?a then
           and_then (lookup (self_classes b) ''PrintServerResponseRecorder'') (\<lambda>c.
             Inr (r1 @ [PrintServerResponseRecorder c]))
         else Inr r1) = Inr r2"
    and r3: "(if verbosity ?a \<in> set [Some logging_INFO, Some logging_DEBUG, Some logging_WARN, None]
         then and_then (lookup (self_classes b) ''ProgressRecorder'') (\<lambda>c.
                Inr (r2 @ [ProgressRecorder c]))
         else Inr r2) = Inr r3"
    and dc: "lookup (self_classes b) ''DemuxRecorder'' = Inr dc"
    and rec: "rec = \<lparr>demux_cls = dc, demux_recorders = r3\<rparr>"
    unfolding build_recorder_def Let_def and_then_eq_Inr by blast
  show "self_classes b ''DemuxRecorder'' = Some (demux_cls rec)"
    using dc rec by (simp add: lookup_eq_Inr)
  have w: "if truthy_str (warc_file ?a)
            then \<exists>c ef. self_classes b ''WARCRecorder'' = Some c \<and>
                   append_header_fields (isspace env) (warc_header ?a)
                     [(''robots'', if robots ?a then ''on'' else ''off''),
                      (''wpull-arguments'', str_of_args env ?a)] = Inr ef \<and>
                   r1 = [WARCRecorder c
                             (the_str (warc_file ?a)
                                @ (if no_warc_compression ?a then ''.warc'' else ''.warc.gz''))
                             (\<not> no_warc_compression ?a) ef
                             (warc_tempdir ?a) (warc_log ?a) (warc_append ?a)]
            else r1 = []"
    using r1 by (auto simp: Let_def and_then_eq_Inr lookup_eq_Inr split: if_splits)
  obtain printer where p: "r2 = r1 @ printer"
    and p': "if server_response ?a
            then \<exists>c. self_classes b ''PrintServerResponseRecorder'' = Some c \<and>
                   printer = [PrintServerResponseRecorder c]
            else printer = []"
    using r2 by (auto simp: and_then_eq_Inr lookup_eq_Inr split: if_splits)
  obtain progress where g: "r3 = r2 @ progress"
    and g': "if verbosity ?a \<in> {Some logging_INFO, Some logging_DEBUG, Some logging_WARN, None}
            then \<exists>c. self_classes b ''ProgressRecorder'' = Some c \<and>
                   progress = [ProgressRecorder c]
            else progress = []"
    using r3 by (auto simp: and_then_eq_Inr lookup_eq_Inr split: if_splits)
  from rec p g have "demux_recorders rec = r1 @ printer @ progress"
    by simp
  with w p' g' show "\<exists>warc printer progress.
           demux_recorders rec = warc @ printer @ progress \<and>
           (if truthy_str (warc_file (self_args b))
            then \<exists>c ef. self_classes b ''WARCRecorder'' = Some c \<and>
                   append_header_fields (isspace env) (warc_header (self_args b))
                     [(''robots'', if robots (self_args b) then ''on'' else ''off''),
                      (''wpull-arguments'', str_of_args env (self_args b))] = Inr ef \<and>
                   warc = [WARCRecorder c
                             (the_str (warc_file (self_args b))
                                @ (if no_warc_compression (self_args b) then ''.warc''
                                   else ''.warc.gz''))
                             (\<not> no_warc_compression (self_args b)) ef
                             (warc_tempdir (self_args b)) (warc_log (self_args b))
                             (warc_append (self_args b))]
            else warc = []) \<and>
           (if server_response (self_args b)
            then \<exists>c. self_classes b ''PrintServerResponseRecorder'' = Some c \<and>
                   printer = [PrintServerResponseRecorder c]
            else printer = []) \<and>
           (if verbosity (self_args b)
                 \<in> {Some logging_INFO, Some logging_DEBUG, Some logging_WARN, None}
            then \<exists>c. self_classes b ''ProgressRecorder'' = Some c \<and>
                   progress = [ProgressRecorder c]
            else progress = [])"
    by blast
qed

subsection \<open>When the parts succeed\<close>

lemma build_file_writer_succeeds:
  "self_classes b ''PathNamer'' = Some c \<Longrightarrow> \<exists>w. build_file_writer b = Inr w"
  by (simp add: build_file_writer_def Let_def lookup_def)

lemma build_processor_succeeds:
  assumes "build_file_writer b = Inr w"
    and "self_classes b ''Waiter'' = Some wc" and "self_classes b ''WebProcessor'' = Some pc"
  shows "\<exists>p. build_processor b = Inr p"
  using assms by (simp add: build_processor_def Let_def lookup_def)

lemma build_http_client_succeeds:
  assumes "build_recorder env b = Inr rec"
    and "self_classes b ''Resolver'' = Some rc"
    and "self_classes b ''ConnectionPool'' = Some pc"
    and "self_classes b ''Client'' = Some cc"
  shows "\<exists>c. build_http_client env b = Inr c \<and> client_recorder c = rec"
  using assms
  by (cases "truthy_num (timeout (self_args b))")
     (simp_all add: build_http_client_def Let_def lookup_def)

lemma call_connection_factory_succeeds:
  assumes "self_classes (closure_self cf) ''Connection'' = Some k"
    and "repeated_keyword [''resolver'', ''connect_timeout'', ''read_timeout'', ''keep_alive'']
           kwargs = None"
  shows "\<exists>conn. call_connection_factory cf (args, kwargs) = Inr conn"
  using assms by (cases cf) (simp add: lookup_def)

lemma build_succeeds:
  assumes "setup_file_logger env b = Inr e2"
    and "install_script_hooks env b = (Inr e3, b')"
    and "build_url_table b' = Inr t"
    and "build_processor b' = Inr p"
    and "build_http_client env b' = Inr c"
    and "self_classes b' ''Engine'' = Some k"
  shows "\<exists>r. build env b = Inr r"
  using assms by (simp add: build_def Let_def lookup_def)

subsection \<open>The sample configuration\<close>

lemma example_args_simps:
  "concurrent example_args = PyInt 1"
  "verbosity example_args = None"
  "output_file example_args = None"
  "append_output example_args = None"
  "python_script example_args = None"
  "urls example_args = [''http://a.test/'']"
  "input_file example_args = None"
  "domains example_args = PyNone"
  "exclude_domains example_args = PyNone"
  "hostnames example_args = PyNone"
  "exclude_hostnames example_args = PyNone"
  "tries example_args = PyInt 20"
  "recursive example_args = False"
  "page_requisites example_args = False"
  "level example_args = PyInt 5"
  "span_hosts example_args = PyBool False"
  "accept_regex example_args = PyNone"
  "reject_regex example_args = PyNone"
  "include_directories example_args = PyNone"
  "exclude_directories example_args = PyNone"
  "no_parent example_args = False"
  "follow_tags example_args = PyNone"
  "ignore_tags example_args = PyNone"
  "relative example_args = PyBool False"
  "robots example_args = True"
  "database example_args = PyStr '':memory:''"
  "warc_file example_args = None"
  "no_warc_compression example_args = False"
  "warc_header example_args = []"
  "warc_tempdir example_args = PyNone"
  "warc_log example_args = PyBool True"
  "warc_append example_args = PyBool False"
  "server_response example_args = False"
  "wait example_args = PyNum 0"
  "random_wait example_args = PyBool False"
  "waitretry example_args = PyNum 10"
  "retry_connrefused example_args = PyBool False"
  "retry_dns_error example_args = PyBool False"
  "max_redirect example_args = PyInt 20"
  "delete_after example_args = False"
  "use_directories example_args = None"
  "directory_prefix example_args = PyStr ''.''"
  "default_page example_args = PyStr ''index.html''"
  "cut_dirs example_args = PyNone"
  "protocol_directories example_args = PyBool False"
  "host_directories example_args = PyBool True"
  "continue_download example_args = False"
  "clobber_method example_args = None"
  "timestamping example_args = False"
  "save_headers example_args = PyBool False"
  "use_server_timestamps example_args = PyBool True"
  "user_agent example_args = None"
  "referer example_args = None"
  "header example_args = []"
  "dns_timeout example_args = None"
  "connect_timeout example_args = None"
  "read_timeout example_args = Some 900"
  "timeout example_args = None"
  "inet_family example_args = None"
  "prefer_family example_args = None"
  "rotate_dns example_args = PyBool False"
  "http_keep_alive example_args = PyBool True"
  by (simp_all add: example_args_def)

lemma example_parse_each:
  "\<forall>u \<in> set us. u \<noteq> [] \<Longrightarrow>
   parse_each example_env initial_classes d us = Inr (map (\<lambda>s. \<lparr>url = s\<rparr>) us)"
  by (induction us) (simp_all add: lookup_def initial_classes_simps example_env_def)

lemma example_init:
  assumes "\<forall>u \<in> set (urls a @ (case input_file a of None \<Rightarrow> [] | Some lines \<Rightarrow> lines)). u \<noteq> []"
  shows "Builder_init example_env a = Inr (example_builder a)"
  using example_parse_each [OF assms, of "''http''"]
  by (simp add: Builder_init_def build_input_urls_def example_builder_def split: option.splits)

lemma example_build_recorder:
  assumes "warc_file a = None" and "\<not> server_response a" and "verbosity a = None"
  shows "build_recorder env (example_builder a)
           = Inr \<lparr>demux_cls = DemuxRecorder_cls,
                  demux_recorders = [ProgressRecorder ProgressRecorder_cls]\<rparr>"
  using assms
  by (simp add: build_recorder_def truthy_str_def lookup_def initial_classes_simps
        example_builder_def)

lemma example_build_http_client:
  assumes "warc_file a = None" and "\<not> server_response a" and "verbosity a = None"
  shows "\<exists>c. build_http_client env (example_builder a) = Inr c"
  using example_build_recorder [OF assms, of env]
  by (simp add: build_http_client_def Let_def lookup_def split: prod.splits)
     (simp add: example_builder_def initial_classes_simps)

lemma example_build:
  assumes "output_file a = None" and "append_output a = None" and "python_script a = None"
    and "warc_file a = None" and "\<not> server_response a" and "verbosity a = None"
  shows "\<exists>r. build env (example_builder a) = Inr r"
proof -
  let ?b = "example_builder a"
  have classes: "self_classes ?b = initial_classes" and args: "self_args ?b = a"
    by (simp_all add: example_builder_def)
  have logger: "setup_file_logger env ?b = Inr []"
    using assms(1,2) by (simp add: setup_file_logger_def args truthy_str_def)
  have hooks: "install_script_hooks env ?b = (Inr [], ?b)"
    using assms(3) by (simp add: install_script_hooks_def args truthy_str_def)
  obtain t where t: "build_url_table ?b = Inr t"
    by (simp add: build_url_table_def Let_def lookup_def classes initial_classes_simps)
  obtain w where w: "build_file_writer ?b = Inr w"
    using build_file_writer_succeeds [of ?b PathNamer_cls]
    by (auto simp: classes initial_classes_simps)
  obtain p where p: "build_processor ?b = Inr p"
    using build_processor_succeeds [OF w, of LinearWaiter_cls WebProcessor_cls]
    by (auto simp: classes initial_classes_simps)
  obtain c where c: "build_http_client env ?b = Inr c"
    using example_build_http_client [OF assms(4-6)] by blast
  have "self_classes ?b ''Engine'' = Some Engine_cls"
    by (simp add: classes initial_classes_simps)
  from build_succeeds [OF logger hooks t p c this] show ?thesis .
qed

lemma example_three_sinks:
  "build_recorder example_env
     (example_builder (example_args\<lparr>warc_file := Some ''out'', server_response := True\<rparr>))
     = Inr \<lparr>demux_cls = DemuxRecorder_cls,
            demux_recorders =
              [WARCRecorder WARCRecorder_cls ''out.warc.gz'' True
                 [(''robots'', ''on''), (''wpull-arguments'', ''Namespace()'')]
                 PyNone (PyBool True) (PyBool False),
               PrintServerResponseRecorder PrintServerResponseRecorder_cls,
               ProgressRecorder ProgressRecorder_cls]\<rparr>"
  by (simp add: build_recorder_def example_builder_def example_args_simps example_env_def
        truthy_str_def the_str_def lookup_def initial_classes_simps)

lemma example_warc_recorder:
  "build_recorder example_env (example_builder (example_args\<lparr>warc_file := Some ''out'',
        warc_header := [''operator : Jo: x '']\<rparr>))
     = Inr \<lparr>demux_cls = DemuxRecorder_cls,
               demux_recorders =
                 [WARCRecorder WARCRecorder_cls ''out.warc.gz'' True
                    [(''robots'', ''on''), (''wpull-arguments'', ''Namespace()''),
                     (''operator'', ''Jo: x'')]
                    PyNone (PyBool True) (PyBool False),
                  ProgressRecorder ProgressRecorder_cls]\<rparr>"
  by (simp add: build_recorder_def example_builder_def example_args_simps example_env_def
          truthy_str_def the_str_def lookup_def initial_classes_simps split1_def strip_def
          lstrip_def rstrip_def)

section \<open>Properties of the builder\<close>

subsection \<open>The URL filter pipeline\<close>

text \<open>
  C1. For every configuration the list returned by \<^verbatim>\<open>_build_url_filters\<close> holds
  exactly one filter of each of the nine required kinds (HTTP scheme, domain, hostname,
  tries, recursive, level, span-hosts, regex, directory); it holds one parent filter
  when \<^verbatim>\<open>no_parent\<close> is set and none otherwise; and its length, nine or ten, leaves
  room for nothing else.
\<close>

theorem build_url_filters_exactly_required:
  "length (filter is_HTTPFilter (build_url_filters b)) = 1 \<and>
   length (filter is_BackwardDomainFilter (build_url_filters b)) = 1 \<and>
   length (filter is_HostnameFilter (build_url_filters b)) = 1 \<and>
   length (filter is_TriesFilter (build_url_filters b)) = 1 \<and>
   length (filter is_RecursiveFilter (build_url_filters b)) = 1 \<and>
   length (filter is_LevelFilter (build_url_filters b)) = 1 \<and>
   length (filter is_SpanHostsFilter (build_url_filters b)) = 1 \<and>
   length (filter is_RegexFilter (build_url_filters b)) = 1 \<and>
   length (filter is_DirectoryFilter (build_url_filters b)) = 1 \<and>
   length (filter is_ParentFilter (build_url_filters b))
     = (if no_parent (self_args b) then 1 else 0) \<and>
   ((\<exists>f \<in> set (build_url_filters b). is_ParentFilter f) \<longleftrightarrow> no_parent (self_args b)) \<and>
   length (build_url_filters b) = (if no_parent (self_args b) then 10 else 9)"
  by (simp add: build_url_filters_def Let_def)

text \<open>The pipeline of a configuration with \<^verbatim>\<open>no_parent\<close> set.\<close>

theorem build_url_filters_exactly_required_witness:
  "no_parent (self_args (example_builder (example_args\<lparr>no_parent := True\<rparr>))) \<and>
   length (filter is_ParentFilter
     (build_url_filters (example_builder (example_args\<lparr>no_parent := True\<rparr>)))) = 1 \<and>
   length (filter is_RegexFilter
     (build_url_filters (example_builder (example_args\<lparr>no_parent := True\<rparr>)))) = 1 \<and>
   length (build_url_filters (example_builder (example_args\<lparr>no_parent := True\<rparr>))) = 10"
  using build_url_filters_exactly_required
          [of "example_builder (example_args\<lparr>no_parent := True\<rparr>)"]
  by (simp add: example_builder_def)

subsection \<open>The file writer\<close>

text \<open>
  C2. For every configuration whose seed URLs parse, \<^verbatim>\<open>_build_file_writer\<close>
  returns one writer, the one the processor of a built engine holds: the null writer
  when \<^verbatim>\<open>delete_after\<close> is set; otherwise, when \<^verbatim>\<open>recursive\<close>,
  \<^verbatim>\<open>page_requisites\<close> or \<^verbatim>\<open>continue_download\<close> is set, the overwrite writer if
  \<^verbatim>\<open>clobber_method\<close> is \<^verbatim>\<open>'disable'\<close> and the ignore writer if not; otherwise the
  timestamping writer when \<^verbatim>\<open>timestamping\<close> is set, and the anti-clobber writer in
  the remaining case.
\<close>

theorem build_file_writer_selection:
  assumes "Builder_init env a = Inr self0"
  shows "\<exists>w. build_file_writer (snd (install_script_hooks env self0)) = Inr w \<and>
           (\<forall>r. build env self0 = Inr r \<longrightarrow>
              processor_file_writer (engine_processor (built_engine r)) = w) \<and>
           (delete_after a \<longrightarrow> w = NullWriter) \<and>
           (\<not> delete_after a \<longrightarrow> \<not> is_NullWriter w) \<and>
           (\<not> delete_after a
              \<and> (recursive a \<or> page_requisites a \<or> continue_download a)
              \<and> clobber_method a = Some ''disable'' \<longrightarrow>
              writer_class w = OverwriteFileWriter) \<and>
           (\<not> delete_after a
              \<and> (recursive a \<or> page_requisites a \<or> continue_download a)
              \<and> clobber_method a \<noteq> Some ''disable'' \<longrightarrow>
              writer_class w = IgnoreFileWriter) \<and>
           (\<not> delete_after a
              \<and> \<not> (recursive a \<or> page_requisites a \<or> continue_download a)
              \<and> timestamping a \<longrightarrow>
              writer_class w = TimestampingFileWriter) \<and>
           (\<not> delete_after a
              \<and> \<not> (recursive a \<or> page_requisites a \<or> continue_download a)
              \<and> \<not> timestamping a \<longrightarrow>
              writer_class w = AntiClobberFileWriter)"
proof -
  let ?self = "snd (install_script_hooks env self0)"
  have args: "self_args ?self = a"
    using assms by (rule hooked_args)
  have namer: "lookup (self_classes ?self) ''PathNamer'' = Inr PathNamer_cls"
    using assms by (simp add: lookup_eq_Inr hooked_classes_other initial_classes_simps)
  obtain w where w: "build_file_writer ?self = Inr w"
    by (cases "delete_after a") (simp_all add: build_file_writer_def Let_def args namer)
  have handed: "processor_file_writer (engine_processor (built_engine r)) = w"
    if r: "build env self0 = Inr r" for r
    using build_processor_Inr(3) [OF build_Inr(3) [OF r]] w
    by (simp add: build_self [OF r])
  have kind: "(delete_after a \<longrightarrow> w = NullWriter) \<and>
           (\<not> delete_after a \<longrightarrow> \<not> is_NullWriter w \<and> writer_class w =
              (if recursive a \<or> page_requisites a \<or> continue_download a
               then (if clobber_method a = Some ''disable'' then OverwriteFileWriter
                     else IgnoreFileWriter)
               else if timestamping a then TimestampingFileWriter
               else AntiClobberFileWriter))"
    using w by (cases "delete_after a")
      (auto simp: build_file_writer_def Let_def args namer)
  from w handed kind show ?thesis
    by (intro exI [of _ w]) simp
qed

text \<open>A recursive download with \<^verbatim>\<open>clobber_method\<close> \<^verbatim>\<open>'disable'\<close> overwrites.\<close>

theorem build_file_writer_selection_witness:
  "\<exists>r w. Builder_init example_env
           (example_args\<lparr>recursive := True, clobber_method := Some ''disable''\<rparr>)
           = Inr (example_builder
                    (example_args\<lparr>recursive := True, clobber_method := Some ''disable''\<rparr>)) \<and>
         \<not> delete_after (example_args\<lparr>recursive := True, clobber_method := Some ''disable''\<rparr>) \<and>
         recursive (example_args\<lparr>recursive := True, clobber_method := Some ''disable''\<rparr>) \<and>
         clobber_method (example_args\<lparr>recursive := True, clobber_method := Some ''disable''\<rparr>)
           = Some ''disable'' \<and>
         build example_env (example_builder
           (example_args\<lparr>recursive := True, clobber_method := Some ''disable''\<rparr>)) = Inr r \<and>
         processor_file_writer (engine_processor (built_engine r)) = w \<and>
         writer_class w = OverwriteFileWriter"
proof -
  let ?a = "example_args\<lparr>recursive := True, clobber_method := Some ''disable''\<rparr>"
  have init: "Builder_init example_env ?a = Inr (example_builder ?a)"
    by (rule example_init) (simp add: example_args_simps)
  have cfg: "\<not> delete_after ?a" "recursive ?a" "clobber_method ?a = Some ''disable''"
    by (simp_all add: example_args_simps)
  obtain r where r: "build example_env (example_builder ?a) = Inr r"
    using example_build [of ?a example_env] by (auto simp: example_args_simps)
  from build_file_writer_selection [OF init] cfg r obtain w where
    "processor_file_writer (engine_processor (built_engine r)) = w"
    and "writer_class w = OverwriteFileWriter"
    by blast
  with init cfg r show ?thesis by blast
qed

subsection \<open>The resolver\<close>

text \<open>
  C3. The resolver of a built HTTP client is made by the registry's \<^verbatim>\<open>Resolver\<close>
  entry with these arguments: the families are IPv4 alone when \<^verbatim>\<open>inet_family\<close> is
  \<^verbatim>\<open>'IPv4'\<close>, IPv6 alone when it is \<^verbatim>\<open>'IPv6'\<close>, and when it is neither, IPv6 before
  IPv4 if \<^verbatim>\<open>prefer_family\<close> is \<^verbatim>\<open>'IPv6'\<close> and IPv4 before IPv6 otherwise; the rotate
  flag is \<^verbatim>\<open>rotate_dns\<close>; the timeout is the DNS timeout in force, which is
  \<^verbatim>\<open>timeout\<close> when that option is truthy and \<^verbatim>\<open>dns_timeout\<close> when it is not.
\<close>

theorem resolver_construction:
  assumes "build_http_client env b = Inr c"
  shows "self_classes b ''Resolver'' = Some (resolver_cls (client_resolver c)) \<and>
         (inet_family (self_args b) = Some ''IPv4'' \<longrightarrow>
            resolver_families (client_resolver c) = [IPv4]) \<and>
         (inet_family (self_args b) = Some ''IPv6'' \<longrightarrow>
            resolver_families (client_resolver c) = [IPv6]) \<and>
         (inet_family (self_args b) \<noteq> Some ''IPv4''
            \<and> inet_family (self_args b) \<noteq> Some ''IPv6''
            \<and> prefer_family (self_args b) = Some ''IPv6'' \<longrightarrow>
            resolver_families (client_resolver c) = [IPv6, IPv4]) \<and>
         (inet_family (self_args b) \<noteq> Some ''IPv4''
            \<and> inet_family (self_args b) \<noteq> Some ''IPv6''
            \<and> prefer_family (self_args b) \<noteq> Some ''IPv6'' \<longrightarrow>
            resolver_families (client_resolver c) = [IPv4, IPv6]) \<and>
         resolver_rotate (client_resolver c) = rotate_dns (self_args b) \<and>
         resolver_timeout (client_resolver c) =
           (if truthy_num (timeout (self_args b)) then timeout (self_args b)
            else dns_timeout (self_args b))"
  using build_http_client_Inr(5-8) [OF assms]
  by (simp add: lookup_eq_Inr)

text \<open>
  Preferring IPv6 with a DNS timeout of three seconds; and \<^verbatim>\<open>inet_family\<close>
  \<^verbatim>\<open>'IPv4'\<close>, which wins over that preference.
\<close>

theorem resolver_construction_witness:
  "(\<exists>c. build_http_client example_env
          (example_builder (example_args\<lparr>prefer_family := Some ''IPv6'',
             dns_timeout := Some 3\<rparr>)) = Inr c \<and>
       inet_family (self_args (example_builder (example_args\<lparr>prefer_family := Some ''IPv6'',
             dns_timeout := Some 3\<rparr>))) = None \<and>
       resolver_families (client_resolver c) = [IPv6, IPv4] \<and>
       resolver_rotate (client_resolver c) = PyBool False \<and>
       resolver_timeout (client_resolver c) = Some 3 \<and>
       resolver_cls (client_resolver c) = Resolver_cls) \<and>
   (\<exists>c. build_http_client example_env
          (example_builder (example_args\<lparr>inet_family := Some ''IPv4'',
             prefer_family := Some ''IPv6''\<rparr>)) = Inr c \<and>
       inet_family (self_args (example_builder (example_args\<lparr>inet_family := Some ''IPv4'',
             prefer_family := Some ''IPv6''\<rparr>))) = Some ''IPv4'' \<and>
       resolver_families (client_resolver c) = [IPv4])"
proof -
  let ?a = "example_args\<lparr>prefer_family := Some ''IPv6'', dns_timeout := Some 3\<rparr>"
  let ?b = "example_args\<lparr>inet_family := Some ''IPv4'', prefer_family := Some ''IPv6''\<rparr>"
  obtain c where c: "build_http_client example_env (example_builder ?a) = Inr c"
    using example_build_http_client [of ?a example_env] by (auto simp: example_args_simps)
  obtain d where d: "build_http_client example_env (example_builder ?b) = Inr d"
    using example_build_http_client [of ?b example_env] by (auto simp: example_args_simps)
  have first: "\<exists>c. build_http_client example_env (example_builder ?a) = Inr c \<and>
       inet_family (self_args (example_builder ?a)) = None \<and>
       resolver_families (client_resolver c) = [IPv6, IPv4] \<and>
       resolver_rotate (client_resolver c) = PyBool False \<and>
       resolver_timeout (client_resolver c) = Some 3 \<and>
       resolver_cls (client_resolver c) = Resolver_cls"
    using resolver_construction [OF c] c
    by (intro exI [of _ c])
       (simp add: example_builder_def example_args_simps truthy_num_def initial_classes_simps)
  have second: "\<exists>c. build_http_client example_env (example_builder ?b) = Inr c \<and>
       inet_family (self_args (example_builder ?b)) = Some ''IPv4'' \<and>
       resolver_families (client_resolver c) = [IPv4]"
    using resolver_construction [OF d] d
    by (intro exI [of _ d]) (simp add: example_builder_def)
  from first second show ?thesis ..
qed

subsection \<open>Seed URLs and the URL table\<close>

text \<open>
  C4. The seeds of a builder are the command-line URLs followed by the lines of the
  input file, when there is one, each parsed by \<^verbatim>\<open>URLInfo.parse\<close> with default scheme
  \<^verbatim>\<open>http\<close>. The URL table of a built engine has received exactly one call, an
  \<^verbatim>\<open>add\<close> of the seeds' URLs in that order, and \<^verbatim>\<open>build_and_run\<close> runs the engine
  that holds this table.
\<close>

theorem seeds_added_once:
  assumes "Builder_init env a = Inr self0" and "build env self0 = Inr r"
  shows "\<exists>infos.
           list_all2
             (\<lambda>url_string url_info.
                URLInfo_parse env URLInfo_cls url_string ''http'' = Inr url_info)
             (urls a @ (case input_file a of None \<Rightarrow> [] | Some lines \<Rightarrow> lines)) infos \<and>
           self_url_infos self0 = infos \<and>
           table_cls (engine_url_table (built_engine r)) = URLTable_cls \<and>
           table_calls (engine_url_table (built_engine r)) = [add (map url infos)] \<and>
           (\<forall>run_sync. build_and_run env run_sync self0 = run_sync (built_engine r))"
proof -
  let ?self = "snd (install_script_hooks env self0)"
  have "parse_each env initial_classes ''http''
          (urls a @ (case input_file a of None \<Rightarrow> [] | Some lines \<Rightarrow> lines))
        = Inr (self_url_infos self0)"
    using Builder_init_Inr(3) [OF assms(1)]
    by (simp add: build_input_urls_def split: option.splits)
  then have parsed: "list_all2
             (\<lambda>url_string url_info.
                URLInfo_parse env URLInfo_cls url_string ''http'' = Inr url_info)
             (urls a @ (case input_file a of None \<Rightarrow> [] | Some lines \<Rightarrow> lines))
             (self_url_infos self0)"
    by (rule parse_each_initial)
  have table: "build_url_table ?self = Inr (engine_url_table (built_engine r))"
    using build_Inr(2) [OF assms(2)] by (simp add: build_self [OF assms(2)])
  have calls: "table_calls (engine_url_table (built_engine r))
                 = [add (map url (self_url_infos self0))]"
    using build_url_table_Inr(1) [OF table] by (simp add: install_script_hooks_frame)
  have "self_classes ?self ''URLTable'' = Some URLTable_cls"
    using assms(1) by (simp add: hooked_classes_other initial_classes_simps)
  then have cls: "table_cls (engine_url_table (built_engine r)) = URLTable_cls"
    using build_url_table_Inr(3) [OF table] by simp
  have run: "build_and_run env run_sync self0 = run_sync (built_engine r)" for run_sync
    using assms(2) by (simp add: build_and_run_def)
  from parsed calls cls run show ?thesis by blast
qed

text \<open>One URL on the command line and one in the input file.\<close>

theorem seeds_added_once_witness:
  "\<exists>r. Builder_init example_env (example_args\<lparr>input_file := Some [''http://b.test/'']\<rparr>)
          = Inr (example_builder (example_args\<lparr>input_file := Some [''http://b.test/'']\<rparr>)) \<and>
       build example_env (example_builder (example_args\<lparr>input_file := Some [''http://b.test/'']\<rparr>))
          = Inr r \<and>
       table_calls (engine_url_table (built_engine r))
          = [add [''http://a.test/'', ''http://b.test/'']]"
proof -
  let ?a = "example_args\<lparr>input_file := Some [''http://b.test/'']\<rparr>"
  have init: "Builder_init example_env ?a = Inr (example_builder ?a)"
    by (rule example_init) (simp add: example_args_simps)
  obtain r where r: "build example_env (example_builder ?a) = Inr r"
    using example_build [of ?a example_env] by (auto simp: example_args_simps)
  from seeds_added_once [OF init r] obtain infos where
    "self_url_infos (example_builder ?a) = infos"
    and "table_calls (engine_url_table (built_engine r)) = [add (map url infos)]"
    by blast
  then have "table_calls (engine_url_table (built_engine r))
               = [add [''http://a.test/'', ''http://b.test/'']]"
    by (auto simp: example_builder_def example_args_simps)
  with init r show ?thesis by blast
qed

subsection \<open>The sinks of the recorder\<close>

text \<open>
  C5. The recorder of a built HTTP client is made by the \<^verbatim>\<open>DemuxRecorder\<close> class over
  a list of sinks, each made by its own class and each present at most once: the
  \<^verbatim>\<open>WARCRecorder\<close> exactly when \<^verbatim>\<open>warc_file\<close> is truthy, the
  \<^verbatim>\<open>PrintServerResponseRecorder\<close> exactly when \<^verbatim>\<open>server_response\<close> is set, and the
  \<^verbatim>\<open>ProgressRecorder\<close> exactly when \<^verbatim>\<open>verbosity\<close> is \<^verbatim>\<open>INFO\<close>, \<^verbatim>\<open>DEBUG\<close>,
  \<^verbatim>\<open>WARN\<close> or \<^verbatim>\<open>None\<close>. It is the client every built engine holds.
\<close>

theorem recorder_fan_out:
  assumes "Builder_init env a = Inr self0"
    and "build_http_client env (snd (install_script_hooks env self0)) = Inr c"
  shows "demux_cls (client_recorder c) = DemuxRecorder_cls \<and>
         ((\<exists>s \<in> set (demux_recorders (client_recorder c)). is_WARCRecorder s)
            \<longleftrightarrow> truthy_str (warc_file a)) \<and>
         ((\<exists>s \<in> set (demux_recorders (client_recorder c)). is_PrintServerResponseRecorder s)
            \<longleftrightarrow> server_response a) \<and>
         ((\<exists>s \<in> set (demux_recorders (client_recorder c)). is_ProgressRecorder s)
            \<longleftrightarrow> verbosity a \<in> {Some logging_INFO, Some logging_DEBUG, Some logging_WARN, None}) \<and>
         (\<forall>s \<in> set (demux_recorders (client_recorder c)).
            recorder_cls s =
              (if is_WARCRecorder s then WARCRecorder_cls
               else if is_PrintServerResponseRecorder s then PrintServerResponseRecorder_cls
               else ProgressRecorder_cls)) \<and>
         length (filter is_WARCRecorder (demux_recorders (client_recorder c))) \<le> 1 \<and>
         length (filter is_PrintServerResponseRecorder (demux_recorders (client_recorder c))) \<le> 1 \<and>
         length (filter is_ProgressRecorder (demux_recorders (client_recorder c))) \<le> 1 \<and>
         (\<forall>r. build env self0 = Inr r \<longrightarrow> engine_http_client (built_engine r) = c)"
proof -
  let ?self = "snd (install_script_hooks env self0)"
  have args: "self_args ?self = a"
    using assms(1) by (rule hooked_args)
  have classes: "self_classes ?self ''DemuxRecorder'' = Some DemuxRecorder_cls"
    "self_classes ?self ''WARCRecorder'' = Some WARCRecorder_cls"
    "self_classes ?self ''PrintServerResponseRecorder'' = Some PrintServerResponseRecorder_cls"
    "self_classes ?self ''ProgressRecorder'' = Some ProgressRecorder_cls"
    using assms(1) by (simp_all add: hooked_classes_other initial_classes_simps)
  have rec: "build_recorder env ?self = Inr (client_recorder c)"
    using assms(2) by (rule build_http_client_Inr(1))
  have demux: "demux_cls (client_recorder c) = DemuxRecorder_cls"
    using build_recorder_Inr(1) [OF rec] classes by simp
  from build_recorder_Inr(2) [OF rec] obtain warc printer progress where
    sinks: "demux_recorders (client_recorder c) = warc @ printer @ progress"
    and warc0: "if truthy_str (warc_file (self_args ?self))
            then \<exists>c ef. self_classes ?self ''WARCRecorder'' = Some c \<and>
                   append_header_fields (isspace env) (warc_header (self_args ?self))
                     [(''robots'', if robots (self_args ?self) then ''on'' else ''off''),
                      (''wpull-arguments'', str_of_args env (self_args ?self))] = Inr ef \<and>
                   warc = [WARCRecorder c
                             (the_str (warc_file (self_args ?self))
                                @ (if no_warc_compression (self_args ?self) then ''.warc''
                                   else ''.warc.gz''))
                             (\<not> no_warc_compression (self_args ?self)) ef
                             (warc_tempdir (self_args ?self)) (warc_log (self_args ?self))
                             (warc_append (self_args ?self))]
            else warc = []"
    and printer0: "if server_response (self_args ?self)
            then \<exists>c. self_classes ?self ''PrintServerResponseRecorder'' = Some c \<and>
                   printer = [PrintServerResponseRecorder c]
            else printer = []"
    and progress0: "if verbosity (self_args ?self)
                 \<in> {Some logging_INFO, Some logging_DEBUG, Some logging_WARN, None}
            then \<exists>c. self_classes ?self ''ProgressRecorder'' = Some c \<and>
                   progress = [ProgressRecorder c]
            else progress = []"
    by blast
  have warc: "if truthy_str (warc_file a)
               then \<exists>p z ef t l ap. warc = [WARCRecorder WARCRecorder_cls p z ef t l ap]
               else warc = []"
    using warc0 unfolding args classes by (cases "truthy_str (warc_file a)") auto
  have printer: "if server_response a
               then printer = [PrintServerResponseRecorder PrintServerResponseRecorder_cls]
               else printer = []"
    using printer0 unfolding args classes by (cases "server_response a") auto
  have progress: "if verbosity a \<in> {Some logging_INFO, Some logging_DEBUG, Some logging_WARN, None}
               then progress = [ProgressRecorder ProgressRecorder_cls]
               else progress = []"
    using progress0 unfolding args classes
    by (cases "verbosity a \<in> {Some logging_INFO, Some logging_DEBUG, Some logging_WARN, None}")
       auto
  have handed: "engine_http_client (built_engine r) = c" if r: "build env self0 = Inr r" for r
    using build_Inr(4) [OF r] assms(2) by (simp add: build_self [OF r])
  have "(\<exists>s \<in> set (warc @ printer @ progress). is_WARCRecorder s) \<longleftrightarrow> truthy_str (warc_file a)"
    using warc printer progress by (auto split: if_splits)
  moreover have "(\<exists>s \<in> set (warc @ printer @ progress). is_PrintServerResponseRecorder s)
                   \<longleftrightarrow> server_response a"
    using warc printer progress by (auto split: if_splits)
  moreover have "(\<exists>s \<in> set (warc @ printer @ progress). is_ProgressRecorder s)
      \<longleftrightarrow> verbosity a \<in> {Some logging_INFO, Some logging_DEBUG, Some logging_WARN, None}"
    using warc printer progress by (auto split: if_splits)
  moreover have "\<forall>s \<in> set (warc @ printer @ progress).
            recorder_cls s =
              (if is_WARCRecorder s then WARCRecorder_cls
               else if is_PrintServerResponseRecorder s then PrintServerResponseRecorder_cls
               else ProgressRecorder_cls)"
    using warc printer progress by (auto split: if_splits)
  moreover have "length (filter is_WARCRecorder (warc @ printer @ progress)) \<le> 1"
    "length (filter is_PrintServerResponseRecorder (warc @ printer @ progress)) \<le> 1"
    "length (filter is_ProgressRecorder (warc @ printer @ progress)) \<le> 1"
    using warc printer progress by (auto split: if_splits)
  ultimately show ?thesis
    using demux handed unfolding sinks by blast
qed

text \<open>A WARC file, the server response and the default verbosity: three sinks.\<close>

theorem recorder_fan_out_witness:
  "\<exists>c. Builder_init example_env
          (example_args\<lparr>warc_file := Some ''out'', server_response := True\<rparr>)
          = Inr (example_builder
                   (example_args\<lparr>warc_file := Some ''out'', server_response := True\<rparr>)) \<and>
       build_http_client example_env (snd (install_script_hooks example_env
          (example_builder (example_args\<lparr>warc_file := Some ''out'', server_response := True\<rparr>))))
          = Inr c \<and>
       truthy_str (warc_file (example_args\<lparr>warc_file := Some ''out'', server_response := True\<rparr>)) \<and>
       server_response (example_args\<lparr>warc_file := Some ''out'', server_response := True\<rparr>) \<and>
       verbosity (example_args\<lparr>warc_file := Some ''out'', server_response := True\<rparr>) = None \<and>
       demux_cls (client_recorder c) = DemuxRecorder_cls \<and>
       map recorder_cls (demux_recorders (client_recorder c))
         = [WARCRecorder_cls, PrintServerResponseRecorder_cls, ProgressRecorder_cls] \<and>
       (\<exists>s \<in> set (demux_recorders (client_recorder c)). is_WARCRecorder s) \<and>
       (\<exists>s \<in> set (demux_recorders (client_recorder c)). is_PrintServerResponseRecorder s) \<and>
       (\<exists>s \<in> set (demux_recorders (client_recorder c)). is_ProgressRecorder s)"
proof -
  let ?a = "example_args\<lparr>warc_file := Some ''out'', server_response := True\<rparr>"
  have init: "Builder_init example_env ?a = Inr (example_builder ?a)"
    by (rule example_init) (simp add: example_args_simps)
  have hooks: "snd (install_script_hooks example_env (example_builder ?a)) = example_builder ?a"
    by (simp add: install_script_hooks_def example_builder_def example_args_simps truthy_str_def)
  have classes: "self_classes (example_builder ?a) ''Resolver'' = Some Resolver_cls"
    "self_classes (example_builder ?a) ''ConnectionPool'' = Some ConnectionPool_cls"
    "self_classes (example_builder ?a) ''Client'' = Some Client_cls"
    by (simp_all add: example_builder_def initial_classes_simps)
  from build_http_client_succeeds [OF example_three_sinks classes]
  obtain c where c: "build_http_client example_env (example_builder ?a) = Inr c"
    and rec: "client_recorder c = \<lparr>demux_cls = DemuxRecorder_cls,
            demux_recorders =
              [WARCRecorder WARCRecorder_cls ''out.warc.gz'' True
                 [(''robots'', ''on''), (''wpull-arguments'', ''Namespace()'')]
                 PyNone (PyBool True) (PyBool False),
               PrintServerResponseRecorder PrintServerResponseRecorder_cls,
               ProgressRecorder ProgressRecorder_cls]\<rparr>"
    by blast
  have cfg: "truthy_str (warc_file ?a)" "server_response ?a" "verbosity ?a = None"
    by (simp_all add: example_args_simps truthy_str_def)
  have c': "build_http_client example_env
              (snd (install_script_hooks example_env (example_builder ?a))) = Inr c"
    using c hooks by simp
  note fan_out = recorder_fan_out [OF init c']
  have demux: "demux_cls (client_recorder c) = DemuxRecorder_cls"
    using fan_out by (elim conjE)
  have warc: "\<exists>s \<in> set (demux_recorders (client_recorder c)). is_WARCRecorder s"
    using fan_out cfg(1) by (elim conjE) (erule iffD2)
  have printer: "\<exists>s \<in> set (demux_recorders (client_recorder c)). is_PrintServerResponseRecorder s"
    using fan_out cfg(2) by (elim conjE) (erule iffD2)
  have progress: "\<exists>s \<in> set (demux_recorders (client_recorder c)). is_ProgressRecorder s"
    using rec by simp
  have "map recorder_cls (demux_recorders (client_recorder c))
         = [WARCRecorder_cls, PrintServerResponseRecorder_cls, ProgressRecorder_cls]"
    using rec by simp
  with demux warc printer progress init c' cfg show ?thesis
    by (intro exI [of _ c] conjI)
qed

subsection \<open>The arguments of the WARC recorder\<close>

text \<open>
  C6. When \<^verbatim>\<open>warc_file\<close> is a non-empty name and the recorder is built, its first
  sink is the one \<^verbatim>\<open>WARCRecorder\<close>. Its path is the name followed by \<^verbatim>\<open>.warc\<close> when
  \<^verbatim>\<open>no_warc_compression\<close> is set and by \<^verbatim>\<open>.warc.gz\<close> when not, with \<^verbatim>\<open>compress\<close>
  the negation of that flag; \<^verbatim>\<open>appending\<close> is \<^verbatim>\<open>warc_append\<close>; the extra fields
  begin with \<^verbatim>\<open>robots\<close> (\<^verbatim>\<open>on\<close> or \<^verbatim>\<open>off\<close>) and \<^verbatim>\<open>wpull-arguments\<close>
  (\<^verbatim>\<open>str(args)\<close>) and continue with one pair for each string of \<^verbatim>\<open>warc_header\<close>,
  in order: the text before its first colon and the text after it, both stripped.
  Stripping removes a run of whitespace at each end and leaves none there.
\<close>

theorem warc_recorder_arguments:
  assumes "build_recorder env b = Inr rec"
    and "warc_file (self_args b) = Some name" and "name \<noteq> []"
  shows "\<exists>w rest.
           demux_recorders rec = w # rest \<and> is_WARCRecorder w \<and>
           (\<forall>s \<in> set rest. \<not> is_WARCRecorder s) \<and>
           self_classes b ''WARCRecorder'' = Some (recorder_cls w) \<and>
           warc_path w = (if no_warc_compression (self_args b) then name @ ''.warc''
                          else name @ ''.warc.gz'') \<and>
           compress w = (\<not> no_warc_compression (self_args b)) \<and>
           appending w = warc_append (self_args b) \<and>
           take 2 (extra_fields w) =
             [(''robots'', if robots (self_args b) then ''on'' else ''off''),
              (''wpull-arguments'', str_of_args env (self_args b))] \<and>
           list_all2
             (\<lambda>header_string (field_name, field_value). \<exists>raw_name raw_value.
                header_string = raw_name @ CHR '':'' # raw_value \<and>
                CHR '':'' \<notin> set raw_name \<and>
                field_name = strip (isspace env) raw_name \<and>
                field_value = strip (isspace env) raw_value)
             (warc_header (self_args b)) (drop 2 (extra_fields w)) \<and>
           (\<forall>s. \<exists>l r. s = l @ strip (isspace env) s @ r \<and>
              (\<forall>c \<in> set l. isspace env c) \<and> (\<forall>c \<in> set r. isspace env c) \<and>
              (strip (isspace env) s \<noteq> [] \<longrightarrow>
                 \<not> isspace env (hd (strip (isspace env) s)) \<and>
                 \<not> isspace env (last (strip (isspace env) s))))"
proof -
  let ?a = "self_args b"
  let ?first = "[(''robots'', if robots ?a then ''on'' else ''off''),
                 (''wpull-arguments'', str_of_args env ?a)]"
  have truthy: "truthy_str (warc_file ?a)" and name: "the_str (warc_file ?a) = name"
    using assms(2,3) by (simp_all add: truthy_str_def the_str_def)
  from build_recorder_Inr(2) [OF assms(1)] truthy obtain c ef printer progress where
    sinks: "demux_recorders rec =
              [WARCRecorder c
                 (the_str (warc_file ?a)
                    @ (if no_warc_compression ?a then ''.warc'' else ''.warc.gz''))
                 (\<not> no_warc_compression ?a) ef
                 (warc_tempdir ?a) (warc_log ?a) (warc_append ?a)] @ printer @ progress"
    and c: "self_classes b ''WARCRecorder'' = Some c"
    and ef: "append_header_fields (isspace env) (warc_header ?a) ?first = Inr ef"
    and printer: "if server_response ?a
            then \<exists>c. self_classes b ''PrintServerResponseRecorder'' = Some c \<and>
                   printer = [PrintServerResponseRecorder c]
            else printer = []"
    and progress: "if verbosity ?a
                 \<in> {Some logging_INFO, Some logging_DEBUG, Some logging_WARN, None}
            then \<exists>c. self_classes b ''ProgressRecorder'' = Some c \<and>
                   progress = [ProgressRecorder c]
            else progress = []"
    by auto
  from append_header_fields_Inr [OF ef] obtain parts where
    parts: "ef = ?first @ parts"
    and split: "list_all2
             (\<lambda>header_string (field_name, field_value). \<exists>raw_name raw_value.
                header_string = raw_name @ CHR '':'' # raw_value \<and>
                CHR '':'' \<notin> set raw_name \<and>
                field_name = strip (isspace env) raw_name \<and>
                field_value = strip (isspace env) raw_value)
             (warc_header ?a) parts"
    by blast
  have others: "\<forall>s \<in> set (printer @ progress). \<not> is_WARCRecorder s"
    using printer progress by (auto split: if_splits)
  let ?w = "WARCRecorder c
                 (the_str (warc_file ?a)
                    @ (if no_warc_compression ?a then ''.warc'' else ''.warc.gz''))
                 (\<not> no_warc_compression ?a) ef
                 (warc_tempdir ?a) (warc_log ?a) (warc_append ?a)"
  show ?thesis
  proof (intro exI [of _ ?w] exI [of _ "printer @ progress"] conjI)
    show "demux_recorders rec = ?w # printer @ progress"
      using sinks by simp
    show "\<forall>s \<in> set (printer @ progress). \<not> is_WARCRecorder s"
      by (rule others)
    show "list_all2
             (\<lambda>header_string (field_name, field_value). \<exists>raw_name raw_value.
                header_string = raw_name @ CHR '':'' # raw_value \<and>
                CHR '':'' \<notin> set raw_name \<and>
                field_name = strip (isspace env) raw_name \<and>
                field_value = strip (isspace env) raw_value)
             (warc_header ?a) (drop 2 (extra_fields ?w))"
      using split parts by simp
    show "\<forall>s. \<exists>l r. s = l @ strip (isspace env) s @ r \<and>
              (\<forall>c \<in> set l. isspace env c) \<and> (\<forall>c \<in> set r. isspace env c) \<and>
              (strip (isspace env) s \<noteq> [] \<longrightarrow>
                 \<not> isspace env (hd (strip (isspace env) s)) \<and>
                 \<not> isspace env (last (strip (isspace env) s)))"
      using strip_spec by blast
  qed (simp_all add: c name parts)
qed

text \<open>
  A compressed archive \<^verbatim>\<open>out\<close> with the header \<^verbatim>\<open>operator : Jo: x\<close>: the value
  keeps its own colon.
\<close>

theorem warc_recorder_arguments_witness:
  "warc_file (self_args (example_builder (example_args\<lparr>warc_file := Some ''out'',
      warc_header := [''operator : Jo: x '']\<rparr>))) = Some ''out'' \<and>
   ''out'' \<noteq> [] \<and>
   (\<exists>rec w rest.
      build_recorder example_env (example_builder (example_args\<lparr>warc_file := Some ''out'',
        warc_header := [''operator : Jo: x '']\<rparr>)) = Inr rec \<and>
      demux_recorders rec = w # rest \<and>
      warc_path w = ''out.warc.gz'' \<and> compress w \<and> appending w = PyBool False \<and>
      extra_fields w = [(''robots'', ''on''), (''wpull-arguments'', ''Namespace()''),
                        (''operator'', ''Jo: x'')])"
proof -
  let ?b = "example_builder (example_args\<lparr>warc_file := Some ''out'',
              warc_header := [''operator : Jo: x '']\<rparr>)"
  let ?rec = "\<lparr>demux_cls = DemuxRecorder_cls,
               demux_recorders =
                 [WARCRecorder WARCRecorder_cls ''out.warc.gz'' True
                    [(''robots'', ''on''), (''wpull-arguments'', ''Namespace()''),
                     (''operator'', ''Jo: x'')]
                    PyNone (PyBool True) (PyBool False),
                  ProgressRecorder ProgressRecorder_cls]\<rparr>"
  have rec: "build_recorder example_env ?b = Inr ?rec"
    by (rule example_warc_recorder)
  have given: "warc_file (self_args ?b) = Some ''out''"
    by (simp add: example_builder_def)
  have ne: "''out'' \<noteq> []"
    by simp
  have cfg: "\<not> no_warc_compression (self_args ?b)" "warc_append (self_args ?b) = PyBool False"
    by (simp_all add: example_builder_def example_args_simps)
  from warc_recorder_arguments [OF rec given ne] obtain w rest where
    w: "demux_recorders ?rec = w # rest"
    and path: "warc_path w = (if no_warc_compression (self_args ?b) then ''out'' @ ''.warc''
                              else ''out'' @ ''.warc.gz'')"
    and compress: "compress w = (\<not> no_warc_compression (self_args ?b))"
    and appending: "appending w = warc_append (self_args ?b)"
    by blast
  from w have fields: "extra_fields w = [(''robots'', ''on''),
      (''wpull-arguments'', ''Namespace()''), (''operator'', ''Jo: x'')]"
    by auto
  from path compress appending cfg have "warc_path w = ''out.warc.gz''" "compress w"
    "appending w = PyBool False"
    by simp_all
  with rec w fields given ne show ?thesis
    by blast
qed

subsection \<open>The request factory\<close>

text \<open>
  C7, as amended. On every request it returns, the request factory has assigned
  \<^verbatim>\<open>User-Agent\<close>, the configured user agent when that is a non-empty string and
  \<^verbatim>\<open>Mozilla/5.0 (compatible) Wpull/\<close> followed by the version otherwise, and the
  request carries that field; it has assigned \<^verbatim>\<open>Referer\<close>, the configured referer,
  if and only if that is a non-empty string; and it has then handed every string of
  \<^verbatim>\<open>header\<close>, in order, to \<^verbatim>\<open>fields.parse\<close>, so that each header line with a
  colon is carried too. Hence the request carries a \<^verbatim>\<open>Referer\<close> field if and only
  if a non-empty referer is configured or one of the header strings names
  \<^verbatim>\<open>Referer\<close>.
\<close>

theorem request_factory_fields:
  assumes "call_request_factory env (build_request_factory b) ak = Inr request"
  shows "(\<exists>ua. field_ops request =
            setitem ''User-Agent'' ua
            # (if truthy_str (referer (self_args b))
               then [setitem ''Referer'' (the_str (referer (self_args b)))] else [])
            @ map parse (header (self_args b)) \<and>
            (truthy_str (user_agent (self_args b)) \<longrightarrow> user_agent (self_args b) = Some ua) \<and>
            (\<not> truthy_str (user_agent (self_args b)) \<longrightarrow>
               ua = ''Mozilla/5.0 (compatible) Wpull/'' @ wpull_version env) \<and>
            (''User-Agent'', ua) \<in> set (carried (isspace env) request)) \<and>
         ((\<exists>v. setitem ''Referer'' v \<in> set (field_ops request))
            \<longleftrightarrow> truthy_str (referer (self_args b))) \<and>
         (\<forall>v. setitem ''Referer'' v \<in> set (field_ops request) \<longrightarrow>
            referer (self_args b) = Some v) \<and>
         (carries (isspace env) ''Referer'' request \<longleftrightarrow>
            truthy_str (referer (self_args b))
            \<or> (\<exists>header_string \<in> set (header (self_args b)).
                  names_field (isspace env) ''Referer'' header_string)) \<and>
         (\<forall>header_string \<in> set (header (self_args b)).
            parse header_string \<in> set (field_ops request) \<and>
            (\<forall>field. field_of (isspace env) (parse header_string) = Some field \<longrightarrow>
               field \<in> set (carried (isspace env) request))) \<and>
         new_args request = ak"
proof -
  let ?a = "self_args b"
  let ?ws = "isspace env"
  let ?ua = "if truthy_str (user_agent ?a) then the_str (user_agent ?a)
             else ''Mozilla/5.0 (compatible) Wpull/'' @ wpull_version env"
  have ops: "field_ops request =
           setitem ''User-Agent'' ?ua
           # (if truthy_str (referer ?a) then [setitem ''Referer'' (the_str (referer ?a))] else [])
           @ map parse (header ?a)"
    using assms by (rule call_request_factory_Inr(1))
  have ua: "(truthy_str (user_agent ?a) \<longrightarrow> user_agent ?a = Some ?ua) \<and>
            (\<not> truthy_str (user_agent ?a) \<longrightarrow>
               ?ua = ''Mozilla/5.0 (compatible) Wpull/'' @ wpull_version env)"
    by (simp add: truthy_str_def the_str_def split: option.splits)
  have ua_carried: "(''User-Agent'', ?ua) \<in> set (carried ?ws request)"
    unfolding in_carried ops by simp
  have referer_iff: "(\<exists>v. setitem ''Referer'' v \<in> set (field_ops request))
            \<longleftrightarrow> truthy_str (referer ?a)"
    unfolding ops by auto
  have referer_val: "\<forall>v. setitem ''Referer'' v \<in> set (field_ops request) \<longrightarrow>
            referer ?a = Some v"
    unfolding ops by (auto simp: truthy_str_def the_str_def split: option.splits if_splits)
  have not_ua: "lower ''User-Agent'' \<noteq> lower ''Referer''"
    by (simp add: lower_def lower_char_def)
  have names: "(\<exists>n. (\<exists>v. field_of ?ws (parse h) = Some (n, v)) \<and> lower n = lower ''Referer'')
                 \<longleftrightarrow> names_field ?ws ''Referer'' h" for h
    by (cases "field_of ?ws (parse h)") (auto simp: names_field_def)
  have carries_iff: "carries ?ws ''Referer'' request \<longleftrightarrow>
            truthy_str (referer ?a)
            \<or> (\<exists>header_string \<in> set (header ?a). names_field ?ws ''Referer'' header_string)"
    unfolding carries_ops ops
    by (cases "truthy_str (referer ?a)")
       (simp_all add: names not_ua bex_Un del: field_of.simps(2))
  have mem: "parse h \<in> set (field_ops request)" if "h \<in> set (header ?a)" for h
    using that unfolding ops by simp
  have parsed: "\<forall>header_string \<in> set (header ?a).
            parse header_string \<in> set (field_ops request) \<and>
            (\<forall>field. field_of ?ws (parse header_string) = Some field \<longrightarrow>
               field \<in> set (carried ?ws request))"
    using mem in_carried [of _ ?ws request] by blast
  from ops ua ua_carried referer_iff referer_val carries_iff parsed
       call_request_factory_Inr(2) [OF assms]
  show ?thesis by blast
qed

text \<open>A referer, no user agent and one header string.\<close>

theorem request_factory_fields_witness:
  "\<exists>request.
     call_request_factory example_env
       (build_request_factory (example_builder
          (example_args\<lparr>referer := Some ''http://r.test/'', header := [''Accept: */*'']\<rparr>)))
       ([PyStr ''http://a.test/''], []) = Inr request \<and>
     truthy_str (referer (self_args (example_builder
          (example_args\<lparr>referer := Some ''http://r.test/'', header := [''Accept: */*'']\<rparr>)))) \<and>
     \<not> truthy_str (user_agent (self_args (example_builder
          (example_args\<lparr>referer := Some ''http://r.test/'', header := [''Accept: */*'']\<rparr>)))) \<and>
     field_ops request =
       [setitem ''User-Agent'' ''Mozilla/5.0 (compatible) Wpull/0.1'',
        setitem ''Referer'' ''http://r.test/'', parse ''Accept: */*''] \<and>
     carries (isspace example_env) ''Referer'' request \<and>
     (''Accept'', ''*/*'') \<in> set (carried (isspace example_env) request)"
proof -
  let ?b = "example_builder
          (example_args\<lparr>referer := Some ''http://r.test/'', header := [''Accept: */*'']\<rparr>)"
  have args: "referer (self_args ?b) = Some ''http://r.test/''"
    "user_agent (self_args ?b) = None" "header (self_args ?b) = [''Accept: */*'']"
    by (simp_all add: example_builder_def example_args_simps)
  have "self_classes ?b ''Request'' = Some Request_cls"
    by (simp add: example_builder_def initial_classes_simps)
  then obtain request where request: "call_request_factory example_env
       (build_request_factory ?b) ([PyStr ''http://a.test/''], []) = Inr request"
    by (simp add: build_request_factory_def lookup_def Let_def)
  have truthy: "truthy_str (referer (self_args ?b))" "\<not> truthy_str (user_agent (self_args ?b))"
    by (simp_all add: args truthy_str_def)
  note fields = request_factory_fields [OF request]
  from fields truthy obtain ua where
    "field_ops request = setitem ''User-Agent'' ua
            # [setitem ''Referer'' (the_str (referer (self_args ?b)))]
            @ map parse (header (self_args ?b))"
    and "ua = ''Mozilla/5.0 (compatible) Wpull/'' @ wpull_version example_env"
    by auto
  then have ops: "field_ops request =
       [setitem ''User-Agent'' ''Mozilla/5.0 (compatible) Wpull/0.1'',
        setitem ''Referer'' ''http://r.test/'', parse ''Accept: */*'']"
    by (simp add: args the_str_def example_env_def)
  from fields truthy(1) have referer: "carries (isspace example_env) ''Referer'' request"
    by blast
  have "field_of (isspace example_env) (parse ''Accept: */*'') = Some (''Accept'', ''*/*'')"
    by (simp add: example_env_def strip_def lstrip_def rstrip_def)
  with fields args(3) have accept: "(''Accept'', ''*/*'') \<in> set (carried (isspace example_env) request)"
    by simp
  from request truthy ops referer accept show ?thesis by blast
qed

text \<open>
  C7 as first stated fails: with no referer configured, the header string
  \<^verbatim>\<open>Referer: http://x.test/\<close> makes the request carry a \<^verbatim>\<open>Referer\<close> field; and a
  user agent supplied as the empty string is replaced by the default.
\<close>

theorem request_factory_fields_counterexample:
  "call_request_factory example_env
     (build_request_factory (example_builder
        (example_args\<lparr>user_agent := Some '''', header := [''Referer: http://x.test/'']\<rparr>)))
     ([PyStr ''http://a.test/''], [])
     = Inr \<lparr>request_cls = Request_cls, new_args = ([PyStr ''http://a.test/''], []),
            field_ops = [setitem ''User-Agent'' ''Mozilla/5.0 (compatible) Wpull/0.1'',
                         parse ''Referer: http://x.test/'']\<rparr> \<and>
   referer (example_args\<lparr>user_agent := Some '''', header := [''Referer: http://x.test/'']\<rparr>)
     = None \<and>
   carries (isspace example_env) ''Referer''
     \<lparr>request_cls = Request_cls, new_args = ([PyStr ''http://a.test/''], []),
      field_ops = [setitem ''User-Agent'' ''Mozilla/5.0 (compatible) Wpull/0.1'',
                   parse ''Referer: http://x.test/'']\<rparr> \<and>
   user_agent (example_args\<lparr>user_agent := Some '''', header := [''Referer: http://x.test/'']\<rparr>)
     = Some '''' \<and>
   carried (isspace example_env)
     \<lparr>request_cls = Request_cls, new_args = ([PyStr ''http://a.test/''], []),
      field_ops = [setitem ''User-Agent'' ''Mozilla/5.0 (compatible) Wpull/0.1'',
                   parse ''Referer: http://x.test/'']\<rparr>
     = [(''User-Agent'', ''Mozilla/5.0 (compatible) Wpull/0.1''),
        (''Referer'', ''http://x.test/'')]"
proof -
  have made: "call_request_factory example_env
     (build_request_factory (example_builder
        (example_args\<lparr>user_agent := Some '''', header := [''Referer: http://x.test/'']\<rparr>)))
     ([PyStr ''http://a.test/''], [])
     = Inr \<lparr>request_cls = Request_cls, new_args = ([PyStr ''http://a.test/''], []),
            field_ops = [setitem ''User-Agent'' ''Mozilla/5.0 (compatible) Wpull/0.1'',
                         parse ''Referer: http://x.test/'']\<rparr>"
    by (simp add: build_request_factory_def example_builder_def example_args_simps
          example_env_def lookup_def initial_classes_simps truthy_str_def)
  have no_referer: "referer (example_args\<lparr>user_agent := Some '''',
          header := [''Referer: http://x.test/'']\<rparr>) = None"
    by (simp add: example_args_simps)
  have empty_agent: "user_agent (example_args\<lparr>user_agent := Some '''',
          header := [''Referer: http://x.test/'']\<rparr>) = Some ''''"
    by simp
  have carried: "carried (isspace example_env)
     \<lparr>request_cls = Request_cls, new_args = ([PyStr ''http://a.test/''], []),
      field_ops = [setitem ''User-Agent'' ''Mozilla/5.0 (compatible) Wpull/0.1'',
                   parse ''Referer: http://x.test/'']\<rparr>
     = [(''User-Agent'', ''Mozilla/5.0 (compatible) Wpull/0.1''),
        (''Referer'', ''http://x.test/'')]"
    by (simp add: carried_def List.map_filter_simps example_env_def strip_def lstrip_def
          rstrip_def)
  have carries: "carries (isspace example_env) ''Referer''
     \<lparr>request_cls = Request_cls, new_args = ([PyStr ''http://a.test/''], []),
      field_ops = [setitem ''User-Agent'' ''Mozilla/5.0 (compatible) Wpull/0.1'',
                   parse ''Referer: http://x.test/'']\<rparr>"
    unfolding carries_def carried by simp
  from made no_referer carries empty_agent carried show ?thesis
    by (intro conjI)
qed

subsection \<open>Script hooks and the class registry\<close>

text \<open>
  C8. Without a hook script \<^verbatim>\<open>_install_script_hooks\<close> leaves the builder as it is.
  With a script whose file opens, the registry entries \<^verbatim>\<open>Engine\<close>, \<^verbatim>\<open>WebProcessor\<close>
  and \<^verbatim>\<open>Resolver\<close> become the three factories of the hook environment (a script
  whose file does not open raises before any assignment). In every case the entries
  under all other names, the arguments and the seed URLs are unchanged.
\<close>

theorem install_script_hooks_registry:
  "(\<not> truthy_str (python_script (self_args b)) \<longrightarrow>
      install_script_hooks env b = (Inr [], b)) \<and>
   (truthy_str (python_script (self_args b))
      \<and> open_succeeds env (the_str (python_script (self_args b))) \<longrightarrow>
      self_classes (snd (install_script_hooks env b)) ''Engine'' = Some engine_factory \<and>
      self_classes (snd (install_script_hooks env b)) ''WebProcessor''
        = Some web_processor_factory \<and>
      self_classes (snd (install_script_hooks env b)) ''Resolver'' = Some resolver_factory) \<and>
   (truthy_str (python_script (self_args b))
      \<and> \<not> open_succeeds env (the_str (python_script (self_args b))) \<longrightarrow>
      install_script_hooks env b = (Inl (IOError (the_str (python_script (self_args b)))), b)) \<and>
   (\<forall>k. k \<notin> {''Engine'', ''WebProcessor'', ''Resolver''} \<longrightarrow>
      self_classes (snd (install_script_hooks env b)) k = self_classes b k) \<and>
   self_args (snd (install_script_hooks env b)) = self_args b \<and>
   self_url_infos (snd (install_script_hooks env b)) = self_url_infos b"
  by (simp add: install_script_hooks_classes install_script_hooks_frame)
     (simp add: install_script_hooks_def install_python_script_def)

text \<open>
  Installing \<^verbatim>\<open>hook.py\<close> on the sample builder replaces \<^verbatim>\<open>Engine\<close> and keeps
  \<^verbatim>\<open>URLTable\<close>; without a script nothing changes; \<^verbatim>\<open>gone.py\<close> does not open.
\<close>

theorem install_script_hooks_registry_witness:
  "truthy_str (python_script (self_args
      (example_builder (example_args\<lparr>python_script := Some ''hook.py''\<rparr>)))) \<and>
   open_succeeds example_env (the_str (python_script (self_args
      (example_builder (example_args\<lparr>python_script := Some ''hook.py''\<rparr>))))) \<and>
   self_classes (snd (install_script_hooks example_env
      (example_builder (example_args\<lparr>python_script := Some ''hook.py''\<rparr>)))) ''Engine''
     = Some engine_factory \<and>
   ''URLTable'' \<notin> {''Engine'', ''WebProcessor'', ''Resolver''} \<and>
   self_classes (snd (install_script_hooks example_env
      (example_builder (example_args\<lparr>python_script := Some ''hook.py''\<rparr>)))) ''URLTable''
     = Some URLTable_cls \<and>
   \<not> truthy_str (python_script (self_args (example_builder example_args))) \<and>
   install_script_hooks example_env (example_builder example_args)
     = (Inr [], example_builder example_args) \<and>
   truthy_str (python_script (self_args
      (example_builder (example_args\<lparr>python_script := Some ''gone.py''\<rparr>)))) \<and>
   \<not> open_succeeds example_env (the_str (python_script (self_args
      (example_builder (example_args\<lparr>python_script := Some ''gone.py''\<rparr>))))) \<and>
   install_script_hooks example_env
      (example_builder (example_args\<lparr>python_script := Some ''gone.py''\<rparr>))
     = (Inl (IOError ''gone.py''),
        example_builder (example_args\<lparr>python_script := Some ''gone.py''\<rparr>))"
  using install_script_hooks_registry
          [of "example_builder (example_args\<lparr>python_script := Some ''hook.py''\<rparr>)" example_env]
        install_script_hooks_registry [of "example_builder example_args" example_env]
        install_script_hooks_registry
          [of "example_builder (example_args\<lparr>python_script := Some ''gone.py''\<rparr>)" example_env]
  by (simp add: example_builder_def example_args_simps example_env_def truthy_str_def
        the_str_def initial_classes_simps)

subsection \<open>Document scrapers\<close>

text \<open>
  C9. In the registry of a new builder, and still after the script hooks, the name
  \<^verbatim>\<open>CSSScraper\<close> stands for the \<^verbatim>\<open>Engine\<close> class, not for the \<^verbatim>\<open>CSSScraper\<close>
  class. The scraper list does not depend on the registry: whatever the registry
  holds, \<^verbatim>\<open>_build_document_scrapers\<close> returns an \<^verbatim>\<open>HTMLScraper\<close> instance followed
  by a \<^verbatim>\<open>CSSScraper\<close> instance, and that list is the one every built engine's
  processor is given.
\<close>

theorem CSSScraper_registry_and_scrapers:
  assumes "Builder_init env a = Inr self0"
  shows "self_classes self0 ''CSSScraper'' = Some Engine_cls \<and>
         self_classes self0 ''CSSScraper'' \<noteq> Some CSSScraper_cls \<and>
         self_classes (snd (install_script_hooks env self0)) ''CSSScraper'' = Some Engine_cls \<and>
         (\<forall>classes. build_document_scrapers (self0\<lparr>self_classes := classes\<rparr>)
            = [HTMLScraper (follow_tags a) (ignore_tags a) (relative a) (robots a),
               CSSScraper]) \<and>
         (\<forall>r. build env self0 = Inr r \<longrightarrow>
            processor_document_scrapers (engine_processor (built_engine r))
              = [HTMLScraper (follow_tags a) (ignore_tags a) (relative a) (robots a),
                 CSSScraper])"
proof -
  have reg: "self_classes self0 ''CSSScraper'' = Some Engine_cls"
    using assms by (simp add: Builder_init_Inr(2) initial_classes_simps)
  have hooked: "self_classes (snd (install_script_hooks env self0)) ''CSSScraper''
                  = Some Engine_cls"
    using assms by (simp add: hooked_classes_other initial_classes_simps)
  have direct: "build_document_scrapers (self0\<lparr>self_classes := classes\<rparr>)
            = [HTMLScraper (follow_tags a) (ignore_tags a) (relative a) (robots a),
               CSSScraper]" for classes
    using assms by (simp add: build_document_scrapers_def Builder_init_Inr(1))
  have built: "processor_document_scrapers (engine_processor (built_engine r))
              = [HTMLScraper (follow_tags a) (ignore_tags a) (relative a) (robots a),
                 CSSScraper]" if r: "build env self0 = Inr r" for r
  proof -
    have "build_processor (built_self r) = Inr (engine_processor (built_engine r))"
      using r by (rule build_Inr(3))
    then have "processor_document_scrapers (engine_processor (built_engine r))
                 = build_document_scrapers (built_self r)"
      by (rule build_processor_Inr(2))
    also have "\<dots> = [HTMLScraper (follow_tags a) (ignore_tags a) (relative a) (robots a),
                 CSSScraper]"
      using assms by (simp add: build_document_scrapers_def build_self [OF r] hooked_args)
    finally show ?thesis .
  qed
  from reg hooked direct built show ?thesis by simp
qed

text \<open>The registry entry of the sample builder and the scrapers of its engine.\<close>

theorem CSSScraper_registry_and_scrapers_witness:
  "\<exists>r. Builder_init example_env example_args = Inr (example_builder example_args) \<and>
       build example_env (example_builder example_args) = Inr r \<and>
       self_classes (example_builder example_args) ''CSSScraper'' = Some Engine_cls \<and>
       processor_document_scrapers (engine_processor (built_engine r))
         = [HTMLScraper PyNone PyNone (PyBool False) True, CSSScraper]"
proof -
  have init: "Builder_init example_env example_args = Inr (example_builder example_args)"
    by (rule example_init) (simp add: example_args_simps)
  obtain r where r: "build example_env (example_builder example_args) = Inr r"
    using example_build [of example_args example_env] by (auto simp: example_args_simps)
  have "processor_document_scrapers (engine_processor (built_engine r))
      = [HTMLScraper (follow_tags example_args) (ignore_tags example_args)
           (relative example_args) (robots example_args), CSSScraper]"
    and "self_classes (example_builder example_args) ''CSSScraper'' = Some Engine_cls"
    using CSSScraper_registry_and_scrapers [OF init] r by blast+
  with init r show ?thesis
    by (intro exI [of _ r]) (simp add: example_args_simps)
qed

subsection \<open>The umbrella timeout\<close>

text \<open>
  C10. When \<^verbatim>\<open>timeout\<close> is truthy, the resolver's timeout and the connect and read
  timeouts of every connection the connection factory returns are that value, whatever
  \<^verbatim>\<open>dns_timeout\<close>, \<^verbatim>\<open>connect_timeout\<close> and \<^verbatim>\<open>read_timeout\<close> say; when it is
  not, the three are \<^verbatim>\<open>dns_timeout\<close>, \<^verbatim>\<open>connect_timeout\<close> and \<^verbatim>\<open>read_timeout\<close>.
  Every such connection holds the client's resolver.
\<close>

theorem umbrella_timeout:
  assumes "build_http_client env b = Inr c"
  shows "(truthy_num (timeout (self_args b)) \<longrightarrow>
            resolver_timeout (client_resolver c) = timeout (self_args b) \<and>
            (\<forall>ak conn. call_connection_factory (client_connection_factory c) ak = Inr conn \<longrightarrow>
               connection_resolver conn = client_resolver c \<and>
               connection_connect_timeout conn = timeout (self_args b) \<and>
               connection_read_timeout conn = timeout (self_args b))) \<and>
         (\<not> truthy_num (timeout (self_args b)) \<longrightarrow>
            resolver_timeout (client_resolver c) = dns_timeout (self_args b) \<and>
            (\<forall>ak conn. call_connection_factory (client_connection_factory c) ak = Inr conn \<longrightarrow>
               connection_resolver conn = client_resolver c \<and>
               connection_connect_timeout conn = connect_timeout (self_args b) \<and>
               connection_read_timeout conn = read_timeout (self_args b)))"
  using build_http_client_Inr(3-5) [OF assms]
  by (auto simp: call_connection_factory_Inr client_resolver_def)

text \<open>
  With \<^verbatim>\<open>timeout\<close> at five seconds, against a \<^verbatim>\<open>read_timeout\<close> of 900, a
  connection made by the factory has both timeouts at five; without it the read
  timeout stays at 900 and the two others stay unset.
\<close>

theorem umbrella_timeout_witness:
  "truthy_num (timeout (self_args (example_builder (example_args\<lparr>timeout := Some 5\<rparr>)))) \<and>
   (\<exists>c conn. build_http_client example_env
                (example_builder (example_args\<lparr>timeout := Some 5\<rparr>)) = Inr c \<and>
      call_connection_factory (client_connection_factory c) ([PyStr ''a.test''], []) = Inr conn \<and>
      resolver_timeout (client_resolver c) = Some 5 \<and>
      connection_connect_timeout conn = Some 5 \<and>
      connection_read_timeout conn = Some 5) \<and>
   \<not> truthy_num (timeout (self_args (example_builder example_args))) \<and>
   (\<exists>c conn. build_http_client example_env (example_builder example_args) = Inr c \<and>
      call_connection_factory (client_connection_factory c) ([PyStr ''a.test''], []) = Inr conn \<and>
      resolver_timeout (client_resolver c) = None \<and>
      connection_connect_timeout conn = None \<and>
      connection_read_timeout conn = Some 900)"
proof -
  let ?a = "example_args\<lparr>timeout := Some 5\<rparr>"
  have t: "timeout (self_args (example_builder ?a)) = Some 5"
    by (simp add: example_builder_def)
  then have truthy: "truthy_num (timeout (self_args (example_builder ?a)))"
    by (simp add: truthy_num_def)
  obtain c where c: "build_http_client example_env (example_builder ?a) = Inr c"
    using example_build_http_client [of ?a example_env] by (auto simp: example_args_simps)
  have "self_classes (closure_self (client_connection_factory c)) ''Connection''
          = Some Connection_cls"
    by (simp add: build_http_client_Inr(2) [OF c] example_builder_def initial_classes_simps)
  then obtain conn where
    conn: "call_connection_factory (client_connection_factory c) ([PyStr ''a.test''], []) = Inr conn"
    using call_connection_factory_succeeds by (fastforce simp: repeated_keyword_def)
  from umbrella_timeout [OF c] truthy t c conn
  have set: "\<exists>c conn. build_http_client example_env (example_builder ?a) = Inr c \<and>
      call_connection_factory (client_connection_factory c) ([PyStr ''a.test''], []) = Inr conn \<and>
      resolver_timeout (client_resolver c) = Some 5 \<and>
      connection_connect_timeout conn = Some 5 \<and>
      connection_read_timeout conn = Some 5"
    by auto
  have u: "timeout (self_args (example_builder example_args)) = None"
    "dns_timeout (self_args (example_builder example_args)) = None"
    "connect_timeout (self_args (example_builder example_args)) = None"
    "read_timeout (self_args (example_builder example_args)) = Some 900"
    by (simp_all add: example_builder_def example_args_simps)
  then have falsy: "\<not> truthy_num (timeout (self_args (example_builder example_args)))"
    by (simp add: truthy_num_def)
  obtain d where d: "build_http_client example_env (example_builder example_args) = Inr d"
    using example_build_http_client [of example_args example_env]
    by (auto simp: example_args_simps)
  have "self_classes (closure_self (client_connection_factory d)) ''Connection''
          = Some Connection_cls"
    by (simp add: build_http_client_Inr(2) [OF d] example_builder_def initial_classes_simps)
  then obtain conn' where
    conn': "call_connection_factory (client_connection_factory d) ([PyStr ''a.test''], []) = Inr conn'"
    using call_connection_factory_succeeds by (fastforce simp: repeated_keyword_def)
  from umbrella_timeout [OF d] falsy u d conn'
  have unset: "\<exists>c conn. build_http_client example_env (example_builder example_args) = Inr c \<and>
      call_connection_factory (client_connection_factory c) ([PyStr ''a.test''], []) = Inr conn \<and>
      resolver_timeout (client_resolver c) = None \<and>
      connection_connect_timeout conn = None \<and>
      connection_read_timeout conn = Some 900"
    by auto
  from truthy set falsy unset show ?thesis by blast
qed

end
